theory Spec2Isabelle
  imports Complex_Main
begin

section \<open>Data model\<close>

text \<open>
  The gateway API keeps its entities in database tables and reaches them through an ORM
  session. A table is modelled as the list of its rows, a nullable column as an
  \<open>option\<close>, a relationship (\<open>user.tenant\<close>, \<open>tenant.plan\<close>) as the lookup of the
  foreign key in the referenced table. Python's unbounded \<open>int\<close> is \<open>int\<close>; a \<open>float\<close>
  column is carried as a \<open>real\<close>.

  A timezone-aware UTC \<open>datetime\<close> is the number of microseconds since 1970-01-01T00:00:00Z,
  so that adding a \<open>timedelta\<close> is addition.
\<close>

type_synonym datetime = int

text \<open>\<open>models/user.py\<close>: \<open>class UserRole(str, Enum)\<close>.\<close>

datatype UserRole = ADMIN | OWNER | MEMBER

text \<open>
  \<open>models/plan.py\<close>: \<open>class Plan\<close>, the columns the endpoints read. A quota or a
  maximum of 0 means unlimited.
\<close>

record Plan =
  plan_id :: string
  plan_name :: string
  plan_quota_daily :: int
  plan_quota_monthly :: int
  plan_rate_limit_rps :: real
  plan_rate_limit_burst :: int
  plan_max_api_keys :: int
  plan_max_routes :: int
  plan_is_active :: bool
  plan_is_default :: bool

text \<open>
  \<open>models/tenant.py\<close>: \<open>class Tenant\<close>, without the \<open>updated_at\<close> bookkeeping column.
\<close>

record Tenant =
  tenant_id :: string
  tenant_name :: string
  tenant_description :: "string option"
  tenant_plan_id :: "string option"
  tenant_is_active :: bool
  tenant_created_at :: datetime

text \<open>
  \<open>models/user.py\<close>: \<open>class User\<close>. The OAuth provider ids and the \<open>updated_at\<close>
  bookkeeping column are read by none of the modelled endpoints and are left out.
\<close>

record User =
  user_id :: string
  user_email :: string
  user_password_hash :: "string option"
  user_name :: string
  user_avatar_url :: "string option"
  user_tenant_id :: "string option"
  user_role :: UserRole
  user_email_verified :: bool
  user_email_verification_token :: "string option"
  user_email_verification_expires :: "datetime option"
  user_password_reset_token :: "string option"
  user_password_reset_expires :: "datetime option"
  user_is_active :: bool
  user_created_at :: datetime
  user_last_login_at :: "datetime option"

text \<open>
  Modelled from the spec: \<open>models/api_key.py\<close> (\<open>ApiKeyStatus\<close>, \<open>ApiKey\<close> and its
  property \<open>is_active\<close>) is imported by \<open>api/portal.py\<close> and is not among the source
  files. The spec gives an ApiKey a status in \<open>{active, disabled}\<close> and says that
  \<open>is_active\<close> derives from the status. The columns are the attributes that
  \<open>api/portal.py\<close> writes in the constructor call of \<open>create_api_key\<close> and reads when
  it builds a \<open>PortalApiKey\<close>; \<open>rate_limit_rps\<close> is nullable as in
  \<open>PortalApiKey.rate_limit_rps: float | None\<close>.
\<close>

datatype ApiKeyStatus = ACTIVE | DISABLED

fun ApiKeyStatus_value :: "ApiKeyStatus \<Rightarrow> string" where
  "ApiKeyStatus_value ACTIVE = ''active''"
| "ApiKeyStatus_value DISABLED = ''disabled''"

record ApiKey =
  apikey_id :: string
  apikey_tenant_id :: string
  apikey_name :: string
  apikey_key :: string
  apikey_key_prefix :: string
  apikey_status :: ApiKeyStatus
  apikey_quota_daily :: int
  apikey_quota_monthly :: int
  apikey_rate_limit_rps :: "real option"
  apikey_rate_limit_burst :: int
  apikey_created_at :: datetime
  apikey_last_used_at :: "datetime option"

definition is_active :: "ApiKey \<Rightarrow> bool" where
  "is_active k = (apikey_status k = ACTIVE)"

text \<open>
  Modelled from the spec: \<open>models/request_log.py\<close> is not among the source files. The
  columns are those that \<open>get_usage\<close> filters and aggregates; the spec gives a RequestLog
  a tenant id, a timestamp, \<open>latency_ms\<close>, a \<open>cache_status\<close> and an \<open>error_type\<close>.
\<close>

record RequestLog =
  log_id :: string
  log_tenant_id :: string
  log_timestamp :: datetime
  log_latency_ms :: int
  log_cache_status :: string
  log_error_type :: string

text \<open>
  A message handed to \<open>email_service\<close>. \<open>EmailService.send_email\<close> starts a background
  thread and returns at once, so a send is the message joining the queue of outgoing mail.
\<close>

datatype email = PasswordResetEmail string string

text \<open>The tables behind the session \<open>db\<close>, and the queue of outgoing mail.\<close>

record database =
  db_plans :: "Plan list"
  db_tenants :: "Tenant list"
  db_users :: "User list"
  db_api_keys :: "ApiKey list"
  db_request_logs :: "RequestLog list"
  sent_emails :: "email list"

text \<open>
  What a handler can raise: FastAPI's \<open>HTTPException(status_code, detail)\<close>,
  SQLAlchemy's \<open>MultipleResultsFound\<close> from \<open>scalar_one_or_none()\<close>, Python's
  \<open>AttributeError\<close> for an attribute that an object of the named class does not have,
  and \<open>TypeError\<close> for a keyword argument that a constructor does not accept.
\<close>

datatype error =
    HTTPException int string
  | MultipleResultsFound
  | AttributeError string string
  | TypeError string

text \<open>
  A handler returns its response or the exception it raised, together with the database
  as it leaves it.
\<close>

type_synonym 'a result = "(error + 'a) \<times> database"

definition raises :: "int \<Rightarrow> error + 'a \<Rightarrow> bool" where
  "raises code r =
     (case r of Inl (HTTPException c d) \<Rightarrow> c = code
              | Inl MultipleResultsFound \<Rightarrow> False
              | Inl (AttributeError cls name) \<Rightarrow> False
              | Inl (TypeError keyword) \<Rightarrow> False
              | Inr v \<Rightarrow> False)"

section \<open>Session helpers\<close>

text \<open>
  \<open>Result.scalar_one_or_none()\<close>: no row gives \<open>None\<close>, one row gives that row, more
  than one raises.
\<close>

fun scalar_one_or_none :: "'a list \<Rightarrow> error + 'a option" where
  "scalar_one_or_none [] = Inr None"
| "scalar_one_or_none [x] = Inr (Some x)"
| "scalar_one_or_none (x # y # zs) = Inl MultipleResultsFound"

text \<open>The relationships \<open>User.tenant\<close> and \<open>Tenant.plan\<close>: the row the foreign key names.\<close>

definition User_tenant :: "database \<Rightarrow> User \<Rightarrow> Tenant option" where
  "User_tenant db user =
     (case user_tenant_id user of
        None \<Rightarrow> None
      | Some tid \<Rightarrow> find (\<lambda>t. tenant_id t = tid) (db_tenants db))"

definition Tenant_plan :: "database \<Rightarrow> Tenant \<Rightarrow> Plan option" where
  "Tenant_plan db tenant =
     (case tenant_plan_id tenant of
        None \<Rightarrow> None
      | Some pid \<Rightarrow> find (\<lambda>p. plan_id p = pid) (db_plans db))"

text \<open>
  \<open>flush\<close> after an attribute assignment writes the object back to the row with its
  primary key; \<open>db.delete\<close> followed by \<open>flush\<close> removes that row.
\<close>

definition flush_api_key :: "ApiKey \<Rightarrow> database \<Rightarrow> database" where
  "flush_api_key obj db =
     db\<lparr>db_api_keys := map (\<lambda>r. if apikey_id r = apikey_id obj then obj else r) (db_api_keys db)\<rparr>"

definition delete_api_key_row :: "ApiKey \<Rightarrow> database \<Rightarrow> database" where
  "delete_api_key_row obj db =
     db\<lparr>db_api_keys := filter (\<lambda>r. apikey_id r \<noteq> apikey_id obj) (db_api_keys db)\<rparr>"

definition flush_user :: "User \<Rightarrow> database \<Rightarrow> database" where
  "flush_user obj db =
     db\<lparr>db_users := map (\<lambda>r. if user_id r = user_id obj then obj else r) (db_users db)\<rparr>"

section \<open>Roles: \<open>models/user.py\<close> and \<open>get_current_admin\<close>\<close>

definition is_admin :: "User \<Rightarrow> bool" where
  "is_admin u = (user_role u = ADMIN)"

definition is_owner :: "User \<Rightarrow> bool" where
  "is_owner u = (user_role u = OWNER)"

definition can_manage_tenant :: "User \<Rightarrow> bool" where
  "can_manage_tenant u = (user_role u \<in> set [ADMIN, OWNER])"

definition can_manage_billing :: "User \<Rightarrow> bool" where
  "can_manage_billing u = (user_role u \<in> set [ADMIN, OWNER])"

text \<open>
  \<open>api/auth.py\<close>, \<open>get_current_admin\<close>: the argument is the user that
  \<open>get_current_user\<close> has authenticated.
\<close>

definition get_current_admin :: "User \<Rightarrow> error + User" where
  "get_current_admin user =
     (if \<not> is_admin user then Inl (HTTPException 403 ''Admin access required'')
      else Inr user)"

section \<open>Rendering integers\<close>

text \<open>Python's \<open>str\<close> of an \<open>int\<close>, as used by f-strings and by \<open>generate_otp\<close>.\<close>

fun str_nat :: "nat \<Rightarrow> string" where
  "str_nat n =
     (if n < 10 then [''0123456789'' ! n]
      else str_nat (n div 10) @ [''0123456789'' ! (n mod 10)])"

declare str_nat.simps [simp del]

definition str_int :: "int \<Rightarrow> string" where
  "str_int i = (if i < 0 then CHR ''-'' # str_nat (nat (- i)) else str_nat (nat i))"

section \<open>Customer portal: \<open>api/portal.py\<close>\<close>

record PortalApiKey =
  pk_id :: string
  pk_name :: string
  pk_key_prefix :: string
  pk_key :: "string option"
  pk_status :: string
  pk_is_active :: bool
  pk_quota_daily :: int
  pk_quota_monthly :: int
  pk_rate_limit_rps :: "real option"
  pk_created_at :: datetime
  pk_last_used_at :: "datetime option"

record CreateApiKeyRequest =
  car_name :: string

record UsageSummary =
  us_daily_requests :: int
  us_monthly_requests :: int
  us_daily_limit :: int
  us_monthly_limit :: int
  us_daily_percent :: real
  us_monthly_percent :: real
  us_cache_hit_rate :: real
  us_avg_latency_ms :: real
  us_error_rate :: real

text \<open>
  The \<open>PortalApiKey(...)\<close> that the key endpoints return; \<open>full_key\<close> is the secret where
  the endpoint discloses it (on creation and after rotation).
\<close>

definition portal_api_key :: "ApiKey \<Rightarrow> string option \<Rightarrow> PortalApiKey" where
  "portal_api_key api_key full_key =
     \<lparr>pk_id = apikey_id api_key,
      pk_name = apikey_name api_key,
      pk_key_prefix = apikey_key_prefix api_key,
      pk_key = full_key,
      pk_status = ApiKeyStatus_value (apikey_status api_key),
      pk_is_active = is_active api_key,
      pk_quota_daily = apikey_quota_daily api_key,
      pk_quota_monthly = apikey_quota_monthly api_key,
      pk_rate_limit_rps = apikey_rate_limit_rps api_key,
      pk_created_at = apikey_created_at api_key,
      pk_last_used_at = apikey_last_used_at api_key\<rparr>"

definition require_tenant :: "database \<Rightarrow> User \<Rightarrow> error + Tenant" where
  "require_tenant db user =
     (case User_tenant db user of
        None \<Rightarrow> Inl (HTTPException 400 ''No organization associated with your account'')
      | Some tenant \<Rightarrow> Inr tenant)"

text \<open>
  \<open>select(ApiKey).where(ApiKey.id == key_id).where(ApiKey.tenant_id == tenant.id)\<close>
  followed by \<open>scalar_one_or_none()\<close>.
\<close>

definition select_api_key :: "database \<Rightarrow> string \<Rightarrow> Tenant \<Rightarrow> error + ApiKey option" where
  "select_api_key db key_id tenant =
     scalar_one_or_none
       (filter (\<lambda>k. apikey_id k = key_id \<and> apikey_tenant_id k = tenant_id tenant)
          (db_api_keys db))"

text \<open>\<open>select(func.count(ApiKey.id)).where(ApiKey.tenant_id == tenant.id)\<close>.\<close>

definition count_api_keys :: "database \<Rightarrow> Tenant \<Rightarrow> int" where
  "count_api_keys db tenant =
     int (length (filter (\<lambda>k. apikey_tenant_id k = tenant_id tenant) (db_api_keys db)))"

text \<open>
  What \<open>create_api_key\<close> does not compute itself: the primary key from \<open>uuid4\<close>, the
  secret from \<open>generate_api_key()\<close>, and the column defaults of \<open>models/api_key.py\<close>
  that the flush fills in.
\<close>

record ApiKeyDefaults =
  gen_id :: string
  gen_key :: string
  gen_status :: ApiKeyStatus
  gen_created_at :: datetime
  gen_last_used_at :: "datetime option"

definition create_api_key ::
  "CreateApiKeyRequest \<Rightarrow> User \<Rightarrow> database \<Rightarrow> ApiKeyDefaults \<Rightarrow> PortalApiKey result" where
  "create_api_key data user db gen =
     (case require_tenant db user of
        Inl e \<Rightarrow> (Inl e, db)
      | Inr tenant \<Rightarrow>
          let plan = Tenant_plan db tenant;
              current_count = count_api_keys db tenant;
              max_keys = (case plan of Some p \<Rightarrow> plan_max_api_keys p | None \<Rightarrow> 2)
          in if max_keys > 0 \<and> current_count \<ge> max_keys
             then (Inl (HTTPException 403
                      (''Plan limit reached: Your plan allows max '' @ str_int max_keys
                         @ '' API keys. Upgrade to create more.'')), db)
             else
               let quota_daily = (case plan of Some p \<Rightarrow> plan_quota_daily p | None \<Rightarrow> 1000);
                   quota_monthly = (case plan of Some p \<Rightarrow> plan_quota_monthly p | None \<Rightarrow> 10000);
                   rate_limit_rps = (case plan of Some p \<Rightarrow> plan_rate_limit_rps p | None \<Rightarrow> 10.0);
                   rate_limit_burst = (case plan of Some p \<Rightarrow> plan_rate_limit_burst p | None \<Rightarrow> 20);
                   key = gen_key gen;
                   api_key =
                     \<lparr>apikey_id = gen_id gen,
                      apikey_tenant_id = tenant_id tenant,
                      apikey_name = car_name data,
                      apikey_key = key,
                      apikey_key_prefix = take 10 key,
                      apikey_status = gen_status gen,
                      apikey_quota_daily = quota_daily,
                      apikey_quota_monthly = quota_monthly,
                      apikey_rate_limit_rps = Some rate_limit_rps,
                      apikey_rate_limit_burst = rate_limit_burst,
                      apikey_created_at = gen_created_at gen,
                      apikey_last_used_at = gen_last_used_at gen\<rparr>;
                   db' = db\<lparr>db_api_keys := db_api_keys db @ [api_key]\<rparr>
               in (Inr (portal_api_key api_key (Some (apikey_key api_key))), db'))"

text \<open>\<open>rotate_api_key\<close>; \<open>new_key\<close> is what \<open>generate_api_key()\<close> returns.\<close>

definition rotate_api_key :: "string \<Rightarrow> User \<Rightarrow> database \<Rightarrow> string \<Rightarrow> PortalApiKey result" where
  "rotate_api_key key_id user db new_key =
     (case require_tenant db user of
        Inl e \<Rightarrow> (Inl e, db)
      | Inr tenant \<Rightarrow>
          (case select_api_key db key_id tenant of
             Inl e \<Rightarrow> (Inl e, db)
           | Inr None \<Rightarrow> (Inl (HTTPException 404 ''API key not found''), db)
           | Inr (Some api_key) \<Rightarrow>
               let api_key' = api_key\<lparr>apikey_key := new_key, apikey_key_prefix := take 10 new_key\<rparr>;
                   db' = flush_api_key api_key' db
               in (Inr (portal_api_key api_key' (Some (apikey_key api_key'))), db')))"

definition toggle_api_key :: "string \<Rightarrow> User \<Rightarrow> database \<Rightarrow> PortalApiKey result" where
  "toggle_api_key key_id user db =
     (case require_tenant db user of
        Inl e \<Rightarrow> (Inl e, db)
      | Inr tenant \<Rightarrow>
          (case select_api_key db key_id tenant of
             Inl e \<Rightarrow> (Inl e, db)
           | Inr None \<Rightarrow> (Inl (HTTPException 404 ''API key not found''), db)
           | Inr (Some api_key) \<Rightarrow>
               let api_key' =
                     (if apikey_status api_key = ACTIVE
                      then api_key\<lparr>apikey_status := DISABLED\<rparr>
                      else api_key\<lparr>apikey_status := ACTIVE\<rparr>);
                   db' = flush_api_key api_key' db
               in (Inr (portal_api_key api_key' None), db')))"

definition delete_api_key :: "string \<Rightarrow> User \<Rightarrow> database \<Rightarrow> ((string \<times> string) list) result" where
  "delete_api_key key_id user db =
     (case require_tenant db user of
        Inl e \<Rightarrow> (Inl e, db)
      | Inr tenant \<Rightarrow>
          (case select_api_key db key_id tenant of
             Inl e \<Rightarrow> (Inl e, db)
           | Inr None \<Rightarrow> (Inl (HTTPException 404 ''API key not found''), db)
           | Inr (Some key) \<Rightarrow>
               (Inr [(''message'', ''API key deleted'')], delete_api_key_row key db)))"

subsection \<open>\<open>get_usage\<close>\<close>

text \<open>
  \<open>now.replace(hour=0, minute=0, second=0, microsecond=0)\<close> is the UTC midnight before
  \<open>now\<close>; \<open>now.replace(day=1, ...)\<close> is the midnight that starts the month. The day of
  the month comes from the count of days since the epoch by the usual civil-calendar
  computation on 400-year eras that start on 1 March.
\<close>

definition microseconds_per_day :: int where
  "microseconds_per_day = 86400000000"

definition day_of_month :: "int \<Rightarrow> int" where
  "day_of_month days =
     (let doe = (days + 719468) mod 146097;
          yoe = (doe - doe div 1460 + doe div 36524 - doe div 146096) div 365;
          doy = doe - (365 * yoe + yoe div 4 - yoe div 100);
          mp = (5 * doy + 2) div 153
      in doy - (153 * mp + 2) div 5 + 1)"

definition today_start_of :: "datetime \<Rightarrow> datetime" where
  "today_start_of now = now - now mod microseconds_per_day"

definition month_start_of :: "datetime \<Rightarrow> datetime" where
  "month_start_of now =
     today_start_of now - (day_of_month (now div microseconds_per_day) - 1) * microseconds_per_day"

text \<open>
  \<open>select(func.count(RequestLog.id)).where(tenant_id == tenant.id).where(timestamp >= since)\<close>.
\<close>

definition count_requests :: "database \<Rightarrow> Tenant \<Rightarrow> datetime \<Rightarrow> int" where
  "count_requests db tenant since =
     int (length (filter (\<lambda>l. log_tenant_id l = tenant_id tenant \<and> log_timestamp l \<ge> since)
                    (db_request_logs db)))"

text \<open>
  The row of the statistics query over the last 24 hours: \<open>total\<close>, \<open>avg_latency\<close>
  (\<open>NULL\<close> over no rows), \<open>cache_hits\<close>, \<open>errors\<close>.
\<close>

record usage_stats =
  stats_total :: int
  stats_avg_latency :: "real option"
  stats_cache_hits :: int
  stats_errors :: int

definition select_stats :: "database \<Rightarrow> Tenant \<Rightarrow> datetime \<Rightarrow> usage_stats" where
  "select_stats db tenant since =
     (let rows = filter (\<lambda>l. log_tenant_id l = tenant_id tenant \<and> log_timestamp l \<ge> since)
                   (db_request_logs db)
      in \<lparr>stats_total = int (length rows),
          stats_avg_latency =
            (if rows = [] then None
             else Some (real_of_int (sum_list (map log_latency_ms rows)) / real (length rows))),
          stats_cache_hits =
            int (length (filter (\<lambda>l. log_cache_status l \<in> set [''hit'', ''stale'']) rows)),
          stats_errors = int (length (filter (\<lambda>l. log_error_type l \<noteq> ''none'') rows))\<rparr>)"

definition get_usage :: "User \<Rightarrow> database \<Rightarrow> datetime \<Rightarrow> UsageSummary result" where
  "get_usage user db now =
     (case require_tenant db user of
        Inl e \<Rightarrow> (Inl e, db)
      | Inr tenant \<Rightarrow>
          let today_start = today_start_of now;
              month_start = month_start_of now;
              daily_requests = count_requests db tenant today_start;
              monthly_requests = count_requests db tenant month_start;
              plan = Tenant_plan db tenant;
              daily_limit = (case plan of Some p \<Rightarrow> plan_quota_daily p | None \<Rightarrow> 1000);
              monthly_limit = (case plan of Some p \<Rightarrow> plan_quota_monthly p | None \<Rightarrow> 10000);
              daily_percent =
                (if daily_limit > 0
                 then real_of_int daily_requests / real_of_int daily_limit * 100 else 0);
              monthly_percent =
                (if monthly_limit > 0
                 then real_of_int monthly_requests / real_of_int monthly_limit * 100 else 0);
              stats = select_stats db tenant (now - 24 * 3600000000);
              total = stats_total stats;
              cache_hit_rate =
                (if total > 0 then real_of_int (stats_cache_hits stats) / real_of_int total else 0);
              error_rate =
                (if total > 0 then real_of_int (stats_errors stats) / real_of_int total else 0)
          in (Inr \<lparr>us_daily_requests = daily_requests,
                   us_monthly_requests = monthly_requests,
                   us_daily_limit = daily_limit,
                   us_monthly_limit = monthly_limit,
                   us_daily_percent = min daily_percent 100,
                   us_monthly_percent = min monthly_percent 100,
                   us_cache_hit_rate = cache_hit_rate,
                   us_avg_latency_ms = (case stats_avg_latency stats of None \<Rightarrow> 0 | Some a \<Rightarrow> a),
                   us_error_rate = error_rate\<rparr>, db))"

section \<open>Authentication: \<open>api/auth.py\<close>\<close>

record SignupRequest =
  sr_email :: string
  sr_password :: string
  sr_name :: string
  sr_company_name :: string

record SignupResponse =
  resp_message :: string
  resp_email :: string
  resp_requires_verification :: bool

record PasswordResetRequest =
  prr_email :: string

text \<open>
  What the handlers draw from outside the database: the clock
  (\<open>datetime.now(timezone.utc)\<close>), the number \<open>random.randint(100000, 999999)\<close>
  returns, \<open>hash_password\<close> with the salt bcrypt draws for this call,
  \<open>secrets.token_urlsafe(32)\<close>, and the \<open>uuid4\<close> primary keys of new rows.
\<close>

record auth_env =
  env_now :: datetime
  env_randint :: int
  env_hash_password :: "string \<Rightarrow> string"
  env_token_urlsafe :: string
  env_tenant_uuid :: string
  env_user_uuid :: string

definition generate_otp :: "auth_env \<Rightarrow> string" where
  "generate_otp env = str_int (env_randint env)"

text \<open>
  \<open>email_service.send_otp_email(to_email, otp)\<close>. The class \<open>EmailService\<close> of
  \<open>services/email.py\<close> defines \<open>__init__\<close>, \<open>_get_smtp_connection\<close>,
  \<open>_send_email_sync\<close>, \<open>send_email\<close>, \<open>send_verification_email\<close>,
  \<open>send_password_reset_email\<close> and \<open>send_welcome_email\<close>, sets the attribute
  \<open>settings\<close>, and has no \<open>__getattr__\<close>: looking up \<open>send_otp_email\<close> on
  \<open>email_service\<close> raises \<open>AttributeError\<close>, and no mail is sent.
\<close>

definition send_otp_email :: "string \<Rightarrow> string \<Rightarrow> database \<Rightarrow> error + database" where
  "send_otp_email to_email otp db = Inl (AttributeError ''EmailService'' ''send_otp_email'')"

text \<open>
  \<open>Tenant(name=..., plan_id=..., billing_email=...)\<close>. The class \<open>Tenant\<close> of
  \<open>models/tenant.py\<close> declares \<open>id\<close>, \<open>name\<close>, \<open>description\<close>, \<open>plan_id\<close>,
  \<open>is_active\<close>, \<open>created_at\<close>, \<open>updated_at\<close>, \<open>plan\<close>, \<open>api_keys\<close> and
  \<open>routes\<close>, and no \<open>billing_email\<close>; the constructor of a mapped class raises
  \<open>TypeError\<close> for a keyword that is not an attribute of the class.
\<close>

definition new_Tenant :: "string \<Rightarrow> string option \<Rightarrow> string \<Rightarrow> error + Tenant" where
  "new_Tenant name plan billing_email = Inl (TypeError ''billing_email'')"

text \<open>
  \<open>services/email.py\<close>, \<open>send_password_reset_email\<close>: builds the message and passes it
  to \<open>send_email\<close>, which hands it to a background thread and returns.
\<close>

definition send_password_reset_email :: "string \<Rightarrow> string \<Rightarrow> database \<Rightarrow> database" where
  "send_password_reset_email to_email token db =
     db\<lparr>sent_emails := sent_emails db @ [PasswordResetEmail to_email token]\<rparr>"

text \<open>\<open>timedelta(minutes=n)\<close> and \<open>timedelta(hours=n)\<close>, in microseconds.\<close>

definition minutes :: "int \<Rightarrow> int" where
  "minutes n = n * 60000000"

definition hours :: "int \<Rightarrow> int" where
  "hours n = n * 3600000000"

text \<open>
  \<open>signup\<close>. The statements run in the order of the source: an exception ends the
  handler where it is raised, with the database as the flushes before it have left it
  (whether that transaction is then committed is up to \<open>get_db\<close>).
\<close>

definition signup :: "SignupRequest \<Rightarrow> database \<Rightarrow> auth_env \<Rightarrow> SignupResponse result" where
  "signup data db env =
     (case scalar_one_or_none (filter (\<lambda>u. user_email u = sr_email data) (db_users db)) of
        Inl e \<Rightarrow> (Inl e, db)
      | Inr (Some existing_user) \<Rightarrow>
          if \<not> user_email_verified existing_user then
            let otp = generate_otp env;
                existing_user' = existing_user
                  \<lparr>user_email_verification_token := Some otp,
                   user_email_verification_expires := Some (env_now env + minutes 10),
                   user_password_hash := Some (env_hash_password env (sr_password data)),
                   user_name := sr_name data\<rparr>;
                db' = flush_user existing_user' db
            in (case send_otp_email (sr_email data) otp db' of
                  Inl e \<Rightarrow> (Inl e, db')
                | Inr db'' \<Rightarrow>
                    (Inr \<lparr>resp_message = ''Verification code sent to your email'',
                          resp_email = sr_email data,
                          resp_requires_verification = True\<rparr>, db''))
          else (Inl (HTTPException 400 ''Email already registered''), db)
      | Inr None \<Rightarrow>
          (case scalar_one_or_none
                  (filter (\<lambda>t. tenant_name t = sr_company_name data) (db_tenants db)) of
             Inl e \<Rightarrow> (Inl e, db)
           | Inr (Some t) \<Rightarrow> (Inl (HTTPException 400 ''Company name already taken''), db)
           | Inr None \<Rightarrow>
               (case scalar_one_or_none (filter plan_is_default (db_plans db)) of
                  Inl e \<Rightarrow> (Inl e, db)
                | Inr plan \<Rightarrow>
                    (case new_Tenant (sr_company_name data) (map_option plan_id plan)
                            (sr_email data) of
                       Inl e \<Rightarrow> (Inl e, db)
                     | Inr constructed \<Rightarrow>
                         let tenant = constructed
                               \<lparr>tenant_id := env_tenant_uuid env,
                                tenant_created_at := env_now env\<rparr>;
                             db1 = db\<lparr>db_tenants := db_tenants db @ [tenant]\<rparr>;
                             otp = generate_otp env;
                             user =
                               \<lparr>user_id = env_user_uuid env,
                                user_email = sr_email data,
                                user_password_hash =
                                  Some (env_hash_password env (sr_password data)),
                                user_name = sr_name data,
                                user_avatar_url = None,
                                user_tenant_id = Some (tenant_id tenant),
                                user_role = OWNER,
                                user_email_verified = False,
                                user_email_verification_token = Some otp,
                                user_email_verification_expires =
                                  Some (env_now env + minutes 10),
                                user_password_reset_token = None,
                                user_password_reset_expires = None,
                                user_is_active = True,
                                user_created_at = env_now env,
                                user_last_login_at = None\<rparr>;
                             db2 = db1\<lparr>db_users := db_users db1 @ [user]\<rparr>
                         in (case send_otp_email (sr_email data) otp db2 of
                               Inl e \<Rightarrow> (Inl e, db2)
                             | Inr db3 \<Rightarrow>
                                 (Inr \<lparr>resp_message = ''Verification code sent to your email'',
                                       resp_email = sr_email data,
                                       resp_requires_verification = True\<rparr>, db3))))))"

text \<open>
  \<open>forgot_password\<close>. \<open>user and user.password_hash\<close> holds for a user whose
  \<open>password_hash\<close> is neither \<open>None\<close> nor the empty string.
\<close>

definition forgot_password ::
  "PasswordResetRequest \<Rightarrow> database \<Rightarrow> auth_env \<Rightarrow> ((string \<times> string) list) result" where
  "forgot_password data db env =
     (case scalar_one_or_none (filter (\<lambda>u. user_email u = prr_email data) (db_users db)) of
        Inl e \<Rightarrow> (Inl e, db)
      | Inr user \<Rightarrow>
          let db' =
                (case user of
                   None \<Rightarrow> db
                 | Some u \<Rightarrow>
                     if user_password_hash u \<noteq> None \<and> user_password_hash u \<noteq> Some []
                     then
                       let token = env_token_urlsafe env;
                           u' = u\<lparr>user_password_reset_token := Some token,
                                  user_password_reset_expires := Some (env_now env + hours 1)\<rparr>
                       in send_password_reset_email (user_email u') token (flush_user u' db)
                     else db)
          in (Inr [(''message'',
                    ''If your email is registered, you will receive a password reset link'')],
              db'))"

section \<open>Rate limiter\<close>

text \<open>
  Modelled from the spec: the rate limiter is not among the source files. The spec, 4.1:
  the bucket state is \<open>{tokens, capacity: burst, refill_rate: rps, last_refill}\<close>; on
  each request \<open>tokens = min(capacity, tokens + elapsed_seconds * refill_rate)\<close>; if
  \<open>tokens >= 1\<close>, decrement and admit; else reject with \<open>RateLimited\<close> carrying
  \<open>retry_after = (1 - tokens) / refill_rate\<close>. Times are in seconds. The bucket of a key
  that has made no request yet holds \<open>capacity\<close> tokens, as the scenario of section 8
  takes it (the first \<open>burst\<close> requests are admitted).
\<close>

record bucket =
  tokens :: real
  capacity :: real
  refill_rate :: real
  last_refill :: real

datatype outcome = Admitted | RateLimited real

definition new_bucket :: "real \<Rightarrow> int \<Rightarrow> real \<Rightarrow> bucket" where
  "new_bucket rate_limit_rps rate_limit_burst now =
     \<lparr>tokens = real_of_int rate_limit_burst,
      capacity = real_of_int rate_limit_burst,
      refill_rate = rate_limit_rps,
      last_refill = now\<rparr>"

definition advance :: "bucket \<Rightarrow> real \<Rightarrow> bucket" where
  "advance b now =
     b\<lparr>tokens := min (capacity b) (tokens b + (now - last_refill b) * refill_rate b),
       last_refill := now\<rparr>"

definition rate_limit :: "bucket \<Rightarrow> real \<Rightarrow> outcome \<times> bucket" where
  "rate_limit b now =
     (let b' = advance b now
      in if tokens b' \<ge> 1 then (Admitted, b'\<lparr>tokens := tokens b' - 1\<rparr>)
         else (RateLimited ((1 - tokens b') / refill_rate b'), b'))"

text \<open>The requests of one key, served in order at the given times.\<close>

fun rate_limit_all :: "bucket \<Rightarrow> real list \<Rightarrow> outcome list" where
  "rate_limit_all b [] = []"
| "rate_limit_all b (now # rest) =
     (case rate_limit b now of (out, b') \<Rightarrow> out # rate_limit_all b' rest)"

section \<open>Ownership of keys\<close>

text \<open>
  An ApiKey with the given id belongs to the tenant of the user: the condition under
  which the key endpoints find the key.
\<close>

definition tenant_has_key :: "database \<Rightarrow> User \<Rightarrow> string \<Rightarrow> bool" where
  "tenant_has_key db user key_id =
     (case User_tenant db user of
        None \<Rightarrow> False
      | Some tenant \<Rightarrow>
          (\<exists>k\<in>set (db_api_keys db). apikey_id k = key_id \<and> apikey_tenant_id k = tenant_id tenant))"

section \<open>Concrete data\<close>

text \<open>
  The \<open>PREDEFINED_PLANS\<close> of \<open>models/plan.py\<close>, a tenant on the Pro plan, a tenant
  without a plan, a tenant on the Enterprise plan, their users and keys, and the
  administrator that \<open>bootstrap.py\<close> inserts, who belongs to no tenant.
\<close>

definition free_plan :: Plan where
  "free_plan =
     \<lparr>plan_id = ''plan-free'', plan_name = ''Free'',
      plan_quota_daily = 1000, plan_quota_monthly = 10000,
      plan_rate_limit_rps = 10, plan_rate_limit_burst = 20,
      plan_max_api_keys = 2, plan_max_routes = 5,
      plan_is_active = True, plan_is_default = True\<rparr>"

definition pro_plan :: Plan where
  "pro_plan =
     \<lparr>plan_id = ''plan-pro'', plan_name = ''Pro'',
      plan_quota_daily = 50000, plan_quota_monthly = 500000,
      plan_rate_limit_rps = 100, plan_rate_limit_burst = 200,
      plan_max_api_keys = 10, plan_max_routes = 25,
      plan_is_active = True, plan_is_default = False\<rparr>"

definition enterprise_plan :: Plan where
  "enterprise_plan =
     \<lparr>plan_id = ''plan-enterprise'', plan_name = ''Enterprise'',
      plan_quota_daily = 0, plan_quota_monthly = 0,
      plan_rate_limit_rps = 1000, plan_rate_limit_burst = 2000,
      plan_max_api_keys = 0, plan_max_routes = 0,
      plan_is_active = True, plan_is_default = False\<rparr>"

definition acme :: Tenant where
  "acme =
     \<lparr>tenant_id = ''t-acme'', tenant_name = ''Acme'', tenant_description = None,
      tenant_plan_id = Some ''plan-pro'',
      tenant_is_active = True, tenant_created_at = 1790000000000000\<rparr>"

definition globex :: Tenant where
  "globex =
     \<lparr>tenant_id = ''t-globex'', tenant_name = ''Globex'', tenant_description = None,
      tenant_plan_id = None,
      tenant_is_active = True, tenant_created_at = 1790000000000000\<rparr>"

definition initech :: Tenant where
  "initech =
     \<lparr>tenant_id = ''t-initech'', tenant_name = ''Initech'', tenant_description = None,
      tenant_plan_id = Some ''plan-enterprise'',
      tenant_is_active = True, tenant_created_at = 1790000000000000\<rparr>"

definition alice :: User where
  "alice =
     \<lparr>user_id = ''u-alice'', user_email = ''alice@acme.test'',
      user_password_hash = Some ''$2b$12$alice'', user_name = ''Alice'',
      user_avatar_url = None, user_tenant_id = Some ''t-acme'', user_role = OWNER,
      user_email_verified = True, user_email_verification_token = None,
      user_email_verification_expires = None, user_password_reset_token = None,
      user_password_reset_expires = None, user_is_active = True,
      user_created_at = 1790000000000000, user_last_login_at = None\<rparr>"

definition bob :: User where
  "bob =
     \<lparr>user_id = ''u-bob'', user_email = ''bob@globex.test'',
      user_password_hash = Some ''$2b$12$bob'', user_name = ''Bob'',
      user_avatar_url = None, user_tenant_id = Some ''t-globex'', user_role = MEMBER,
      user_email_verified = False, user_email_verification_token = Some ''111111'',
      user_email_verification_expires = Some 1790000600000000,
      user_password_reset_token = None, user_password_reset_expires = None,
      user_is_active = True, user_created_at = 1790000000000000,
      user_last_login_at = None\<rparr>"

definition carol :: User where
  "carol =
     \<lparr>user_id = ''u-carol'', user_email = ''carol@initech.test'',
      user_password_hash = None, user_name = ''Carol'',
      user_avatar_url = None, user_tenant_id = Some ''t-initech'', user_role = OWNER,
      user_email_verified = True, user_email_verification_token = None,
      user_email_verification_expires = None, user_password_reset_token = None,
      user_password_reset_expires = None, user_is_active = True,
      user_created_at = 1790000000000000, user_last_login_at = None\<rparr>"

definition heliox_admin :: User where
  "heliox_admin =
     \<lparr>user_id = ''u-admin'', user_email = ''admin@heliox.dev'',
      user_password_hash = Some ''$2b$12$admin'', user_name = ''Heliox Admin'',
      user_avatar_url = None, user_tenant_id = None, user_role = ADMIN,
      user_email_verified = True, user_email_verification_token = None,
      user_email_verification_expires = None, user_password_reset_token = None,
      user_password_reset_expires = None, user_is_active = True,
      user_created_at = 1790000000000000, user_last_login_at = None\<rparr>"

definition acme_key :: ApiKey where
  "acme_key =
     \<lparr>apikey_id = ''k1'', apikey_tenant_id = ''t-acme'', apikey_name = ''prod'',
      apikey_key = ''hx_acme_secret_0001'', apikey_key_prefix = ''hx_acme_se'',
      apikey_status = ACTIVE, apikey_quota_daily = 50000, apikey_quota_monthly = 500000,
      apikey_rate_limit_rps = Some 100, apikey_rate_limit_burst = 200,
      apikey_created_at = 1790000000000000, apikey_last_used_at = None\<rparr>"

definition globex_key :: ApiKey where
  "globex_key =
     \<lparr>apikey_id = ''k2'', apikey_tenant_id = ''t-globex'', apikey_name = ''main'',
      apikey_key = ''hx_globex_secret_01'', apikey_key_prefix = ''hx_globex_'',
      apikey_status = DISABLED, apikey_quota_daily = 1000, apikey_quota_monthly = 10000,
      apikey_rate_limit_rps = Some 10, apikey_rate_limit_burst = 20,
      apikey_created_at = 1790000000000000, apikey_last_used_at = Some 1790000100000000\<rparr>"

definition globex_key2 :: ApiKey where
  "globex_key2 =
     globex_key\<lparr>apikey_id := ''k3'', apikey_name := ''backup'',
       apikey_key := ''hx_globex_secret_02'', apikey_status := ACTIVE\<rparr>"

text \<open>
  Request logs of Acme seen from 2026-11-03T12:00:00Z (day 20760 of the epoch): one of
  that morning, one of the day before, one of 30 October.
\<close>

definition noon_3_nov_2026 :: datetime where
  "noon_3_nov_2026 = 1793707200000000"

definition acme_logs :: "RequestLog list" where
  "acme_logs =
     [\<lparr>log_id = ''l1'', log_tenant_id = ''t-acme'', log_timestamp = 1793667600000000,
       log_latency_ms = 12, log_cache_status = ''hit'', log_error_type = ''none''\<rparr>,
      \<lparr>log_id = ''l2'', log_tenant_id = ''t-acme'', log_timestamp = 1793624400000000,
       log_latency_ms = 30, log_cache_status = ''miss'', log_error_type = ''timeout''\<rparr>,
      \<lparr>log_id = ''l3'', log_tenant_id = ''t-acme'', log_timestamp = 1793350800000000,
       log_latency_ms = 20, log_cache_status = ''miss'', log_error_type = ''none''\<rparr>]"

definition example_db :: database where
  "example_db =
     \<lparr>db_plans = [free_plan, pro_plan, enterprise_plan],
      db_tenants = [acme, globex, initech],
      db_users = [alice, bob, carol, heliox_admin],
      db_api_keys = [acme_key, globex_key, globex_key2],
      db_request_logs = acme_logs,
      sent_emails = []\<rparr>"

definition example_request :: CreateApiKeyRequest where
  "example_request = \<lparr>car_name = ''staging''\<rparr>"

definition example_defaults :: ApiKeyDefaults where
  "example_defaults =
     \<lparr>gen_id = ''k4'', gen_key = ''hx_fresh_secret_0004'', gen_status = ACTIVE,
      gen_created_at = 1793707200000000, gen_last_used_at = None\<rparr>"

definition example_env :: auth_env where
  "example_env =
     \<lparr>env_now = 1793707200000000, env_randint = 482913,
      env_hash_password = (\<lambda>pw. ''$2b$12$'' @ pw),
      env_token_urlsafe = ''tok-0001'',
      env_tenant_uuid = ''t-new'', env_user_uuid = ''u-new''\<rparr>"

text \<open>
  Signup requests with the email of Alice, whose email is verified, and of Bob, whose
  email is not; password reset requests of Alice and of an address nobody registered.
\<close>

definition signup_as_alice :: SignupRequest where
  "signup_as_alice =
     \<lparr>sr_email = ''alice@acme.test'', sr_password = ''correct horse'',
      sr_name = ''Alice Again'', sr_company_name = ''Acme Two''\<rparr>"

definition signup_as_bob :: SignupRequest where
  "signup_as_bob =
     \<lparr>sr_email = ''bob@globex.test'', sr_password = ''battery staple'',
      sr_name = ''Robert'', sr_company_name = ''Globex''\<rparr>"

definition reset_alice :: PasswordResetRequest where
  "reset_alice = \<lparr>prr_email = ''alice@acme.test''\<rparr>"

definition reset_nobody :: PasswordResetRequest where
  "reset_nobody = \<lparr>prr_email = ''nobody@nowhere.test''\<rparr>"

section \<open>Properties\<close>

subsection \<open>Auxiliary facts\<close>

lemma raises_HTTPException: "raises code (Inl (HTTPException c d)) = (c = code)"
  by (simp add: raises_def)

lemma raises_MultipleResultsFound: "\<not> raises code (Inl MultipleResultsFound)"
  by (simp add: raises_def)

lemma raises_AttributeError: "\<not> raises code (Inl (AttributeError cls name))"
  by (simp add: raises_def)

lemma raises_TypeError: "\<not> raises code (Inl (TypeError keyword))"
  by (simp add: raises_def)

lemma raises_Inr: "\<not> raises code (Inr v)"
  by (simp add: raises_def)

lemmas raises_simps =
  raises_HTTPException raises_MultipleResultsFound raises_AttributeError raises_TypeError raises_Inr

lemma scalar_one_or_none_None: "(scalar_one_or_none xs = Inr None) = (xs = [])"
  by (cases xs rule: scalar_one_or_none.cases) simp_all

lemma filter_primary_key:
  assumes "distinct (map f xs)" and "k \<in> set xs"
  shows "filter (\<lambda>r. f r = f k \<and> Q r) xs = (if Q k then [k] else [])"
  using assms
proof (induction xs)
  case Nil
  then show ?case by simp
next
  case (Cons x xs)
  show ?case
  proof (cases "x = k")
    case True
    with Cons.prems have "\<forall>r\<in>set xs. f r \<noteq> f k" by (auto simp: image_iff)
    then have "filter (\<lambda>r. f r = f k \<and> Q r) xs = []" by (simp add: filter_empty_conv)
    with True show ?thesis by simp
  next
    case False
    with Cons.prems have "k \<in> set xs" and "f x \<noteq> f k" and "distinct (map f xs)" by auto
    with Cons.IH show ?thesis by simp
  qed
qed

lemma map_primary_key:
  assumes "distinct (map f xs)" and "k \<in> set xs"
  shows "map (\<lambda>r. if f r = f k then k' else r) xs = map (\<lambda>r. if r = k then k' else r) xs"
proof (rule map_cong [OF refl])
  fix r assume "r \<in> set xs"
  with assms have "(f r = f k) = (r = k)"
    by (auto simp: distinct_map dest: inj_onD)
  then show "(if f r = f k then k' else r) = (if r = k then k' else r)" by simp
qed

lemma require_tenant_Some: "User_tenant db user = Some tenant \<Longrightarrow> require_tenant db user = Inr tenant"
  by (simp add: require_tenant_def)

lemma require_tenant_None:
  "User_tenant db user = None \<Longrightarrow>
   require_tenant db user = Inl (HTTPException 400 ''No organization associated with your account'')"
  by (simp add: require_tenant_def)

lemma select_api_key_None:
  "(select_api_key db key_id tenant = Inr None) =
   (\<not> (\<exists>k\<in>set (db_api_keys db). apikey_id k = key_id \<and> apikey_tenant_id k = tenant_id tenant))"
  by (auto simp: select_api_key_def scalar_one_or_none_None filter_empty_conv)

lemma scalar_one_or_none_Inl: "scalar_one_or_none xs = Inl e \<Longrightarrow> e = MultipleResultsFound"
  by (cases xs rule: scalar_one_or_none.cases) simp_all

lemma select_api_key_Inl: "select_api_key db key_id tenant = Inl e \<Longrightarrow> e = MultipleResultsFound"
  unfolding select_api_key_def by (rule scalar_one_or_none_Inl)

lemma tenant_has_key_Some:
  "User_tenant db user = Some tenant \<Longrightarrow>
   tenant_has_key db user key_id = (select_api_key db key_id tenant \<noteq> Inr None)"
  by (simp add: tenant_has_key_def select_api_key_None)

lemma rotate_api_key_404:
  "User_tenant db user = Some tenant \<Longrightarrow>
   raises 404 (fst (rotate_api_key key_id user db new_key)) = (\<not> tenant_has_key db user key_id)"
  by (auto simp: rotate_api_key_def require_tenant_Some tenant_has_key_Some raises_simps Let_def
           split: sum.splits option.splits dest: select_api_key_Inl)

lemma toggle_api_key_404:
  "User_tenant db user = Some tenant \<Longrightarrow>
   raises 404 (fst (toggle_api_key key_id user db)) = (\<not> tenant_has_key db user key_id)"
  by (auto simp: toggle_api_key_def require_tenant_Some tenant_has_key_Some raises_simps Let_def
           split: sum.splits option.splits dest: select_api_key_Inl)

lemma delete_api_key_404:
  "User_tenant db user = Some tenant \<Longrightarrow>
   raises 404 (fst (delete_api_key key_id user db)) = (\<not> tenant_has_key db user key_id)"
  by (auto simp: delete_api_key_def require_tenant_Some tenant_has_key_Some raises_simps Let_def
           split: sum.splits option.splits dest: select_api_key_Inl)

lemma rotate_api_key_error_unchanged:
  "fst (rotate_api_key key_id user db new_key) = Inl e \<Longrightarrow>
   snd (rotate_api_key key_id user db new_key) = db"
  by (auto simp: rotate_api_key_def Let_def split: sum.splits option.splits)

lemma toggle_api_key_error_unchanged:
  "fst (toggle_api_key key_id user db) = Inl e \<Longrightarrow> snd (toggle_api_key key_id user db) = db"
  by (auto simp: toggle_api_key_def Let_def split: sum.splits option.splits)

lemma delete_api_key_error_unchanged:
  "fst (delete_api_key key_id user db) = Inl e \<Longrightarrow> snd (delete_api_key key_id user db) = db"
  by (auto simp: delete_api_key_def Let_def split: sum.splits option.splits)

lemma other_tenants_key:
  assumes "User_tenant db user = Some tenant"
    and "distinct (map apikey_id (db_api_keys db))"
    and "k \<in> set (db_api_keys db)" and "apikey_id k = key_id"
    and "apikey_tenant_id k \<noteq> tenant_id tenant"
  shows "\<not> tenant_has_key db user key_id"
proof -
  have "filter (\<lambda>r. apikey_id r = apikey_id k \<and> apikey_tenant_id r = tenant_id tenant)
          (db_api_keys db) = []"
    using assms(2,3,5)
    by (simp add: filter_primary_key
          [where f = apikey_id and Q = "\<lambda>r. apikey_tenant_id r = tenant_id tenant"])
  with assms(1,4) show ?thesis
    by (simp add: tenant_has_key_Some select_api_key_def)
qed

lemma raises_Inl_ex: "raises code r \<Longrightarrow> \<exists>e. r = Inl e"
  by (cases r) (simp_all add: raises_def)

subsection \<open>Key lookups that fail\<close>

text \<open>
  C1, as stated, at the administrator that \<open>bootstrap.py\<close> inserts, a user without a
  tenant, and a key id that no row of the table has: no key with that id belongs to the
  tenant of the user, and yet \<open>rotate_api_key\<close> raises 400, not 404 (\<open>require_tenant\<close>
  raises before the key is looked up).
\<close>

theorem key_not_found_counterexample:
  "''k9'' \<notin> apikey_id ` set (db_api_keys example_db) \<and>
   fst (rotate_api_key ''k9'' heliox_admin example_db ''hx_rotated_0001'')
     = Inl (HTTPException 400 ''No organization associated with your account'') \<and>
   \<not> (raises 404 (fst (rotate_api_key ''k9'' heliox_admin example_db ''hx_rotated_0001''))
        = (\<not> tenant_has_key example_db heliox_admin ''k9''))"
  by (simp add: rotate_api_key_def require_tenant_def User_tenant_def tenant_has_key_def
        heliox_admin_def raises_def example_db_def acme_key_def globex_key_def globex_key2_def)

text \<open>
  C1, amended. For every authenticated user who has a tenant and every \<open>key_id\<close>,
  \<open>rotate_api_key\<close>, \<open>toggle_api_key\<close> and \<open>delete_api_key\<close> raise HTTP 404 exactly
  when no ApiKey with that id belongs to the user's tenant, in particular when the key
  with that id is owned by a different tenant; for a user without a tenant they raise
  HTTP 400; and whenever one of them raises 404 or 400 the database is left as it was.
\<close>

theorem key_not_found:
  "(User_tenant db user \<noteq> None \<longrightarrow>
      raises 404 (fst (rotate_api_key key_id user db new_key)) = (\<not> tenant_has_key db user key_id) \<and>
      raises 404 (fst (toggle_api_key key_id user db)) = (\<not> tenant_has_key db user key_id) \<and>
      raises 404 (fst (delete_api_key key_id user db)) = (\<not> tenant_has_key db user key_id)) \<and>
   (User_tenant db user = None \<longrightarrow>
      fst (rotate_api_key key_id user db new_key)
        = Inl (HTTPException 400 ''No organization associated with your account'') \<and>
      fst (toggle_api_key key_id user db)
        = Inl (HTTPException 400 ''No organization associated with your account'') \<and>
      fst (delete_api_key key_id user db)
        = Inl (HTTPException 400 ''No organization associated with your account'')) \<and>
   (User_tenant db user = Some tenant \<and> distinct (map apikey_id (db_api_keys db)) \<and>
    k \<in> set (db_api_keys db) \<and> apikey_id k = key_id \<and> apikey_tenant_id k \<noteq> tenant_id tenant \<longrightarrow>
      raises 404 (fst (rotate_api_key key_id user db new_key)) \<and>
      raises 404 (fst (toggle_api_key key_id user db)) \<and>
      raises 404 (fst (delete_api_key key_id user db))) \<and>
   ((raises 404 (fst (rotate_api_key key_id user db new_key)) \<or>
     raises 400 (fst (rotate_api_key key_id user db new_key))) \<longrightarrow>
      snd (rotate_api_key key_id user db new_key) = db) \<and>
   ((raises 404 (fst (toggle_api_key key_id user db)) \<or>
     raises 400 (fst (toggle_api_key key_id user db))) \<longrightarrow>
      snd (toggle_api_key key_id user db) = db) \<and>
   ((raises 404 (fst (delete_api_key key_id user db)) \<or>
     raises 400 (fst (delete_api_key key_id user db))) \<longrightarrow>
      snd (delete_api_key key_id user db) = db)"
proof -
  have found: "User_tenant db user \<noteq> None \<longrightarrow>
      raises 404 (fst (rotate_api_key key_id user db new_key)) = (\<not> tenant_has_key db user key_id) \<and>
      raises 404 (fst (toggle_api_key key_id user db)) = (\<not> tenant_has_key db user key_id) \<and>
      raises 404 (fst (delete_api_key key_id user db)) = (\<not> tenant_has_key db user key_id)"
    using rotate_api_key_404 toggle_api_key_404 delete_api_key_404 by blast
  have no_tenant: "User_tenant db user = None \<longrightarrow>
      fst (rotate_api_key key_id user db new_key)
        = Inl (HTTPException 400 ''No organization associated with your account'') \<and>
      fst (toggle_api_key key_id user db)
        = Inl (HTTPException 400 ''No organization associated with your account'') \<and>
      fst (delete_api_key key_id user db)
        = Inl (HTTPException 400 ''No organization associated with your account'')"
    by (simp add: rotate_api_key_def toggle_api_key_def delete_api_key_def require_tenant_None)
  have other: "User_tenant db user = Some tenant \<and> distinct (map apikey_id (db_api_keys db)) \<and>
    k \<in> set (db_api_keys db) \<and> apikey_id k = key_id \<and> apikey_tenant_id k \<noteq> tenant_id tenant \<longrightarrow>
      raises 404 (fst (rotate_api_key key_id user db new_key)) \<and>
      raises 404 (fst (toggle_api_key key_id user db)) \<and>
      raises 404 (fst (delete_api_key key_id user db))"
    using other_tenants_key [of db user tenant k key_id]
      rotate_api_key_404 [of db user tenant key_id new_key]
      toggle_api_key_404 [of db user tenant key_id]
      delete_api_key_404 [of db user tenant key_id]
    by blast
  have rotate_unchanged:
    "(raises 404 (fst (rotate_api_key key_id user db new_key)) \<or>
      raises 400 (fst (rotate_api_key key_id user db new_key))) \<longrightarrow>
       snd (rotate_api_key key_id user db new_key) = db"
    by (auto dest!: raises_Inl_ex rotate_api_key_error_unchanged)
  have toggle_unchanged:
    "(raises 404 (fst (toggle_api_key key_id user db)) \<or>
      raises 400 (fst (toggle_api_key key_id user db))) \<longrightarrow>
       snd (toggle_api_key key_id user db) = db"
    by (auto dest!: raises_Inl_ex toggle_api_key_error_unchanged)
  have delete_unchanged:
    "(raises 404 (fst (delete_api_key key_id user db)) \<or>
      raises 400 (fst (delete_api_key key_id user db))) \<longrightarrow>
       snd (delete_api_key key_id user db) = db"
    by (auto dest!: raises_Inl_ex delete_api_key_error_unchanged)
  show ?thesis
    using found no_tenant other rotate_unchanged toggle_unchanged delete_unchanged
    by (intro conjI) assumption+
qed

text \<open>
  Alice of Acme asks for the key of Globex and then for the key of Acme; the
  administrator asks for the key of Acme.
\<close>

theorem key_not_found_witness:
  "User_tenant example_db alice = Some acme \<and>
   distinct (map apikey_id (db_api_keys example_db)) \<and>
   globex_key \<in> set (db_api_keys example_db) \<and> apikey_tenant_id globex_key \<noteq> tenant_id acme \<and>
   raises 404 (fst (rotate_api_key ''k2'' alice example_db ''hx_rotated_0001'')) \<and>
   raises 404 (fst (toggle_api_key ''k2'' alice example_db)) \<and>
   raises 404 (fst (delete_api_key ''k2'' alice example_db)) \<and>
   snd (rotate_api_key ''k2'' alice example_db ''hx_rotated_0001'') = example_db \<and>
   snd (toggle_api_key ''k2'' alice example_db) = example_db \<and>
   snd (delete_api_key ''k2'' alice example_db) = example_db \<and>
   tenant_has_key example_db alice ''k1'' \<and>
   \<not> raises 404 (fst (rotate_api_key ''k1'' alice example_db ''hx_rotated_0001'')) \<and>
   User_tenant example_db heliox_admin = None \<and>
   fst (delete_api_key ''k1'' heliox_admin example_db)
     = Inl (HTTPException 400 ''No organization associated with your account'')"
proof -
  have t: "User_tenant example_db alice = Some acme"
    by (simp add: User_tenant_def example_db_def alice_def acme_def)
  have n: "User_tenant example_db heliox_admin = None"
    by (simp add: User_tenant_def heliox_admin_def)
  have d: "distinct (map apikey_id (db_api_keys example_db))"
    by (simp add: example_db_def acme_key_def globex_key_def globex_key2_def)
  have g: "globex_key \<in> set (db_api_keys example_db)" "apikey_id globex_key = ''k2''"
    "apikey_tenant_id globex_key \<noteq> tenant_id acme"
    by (simp_all add: example_db_def globex_key_def acme_def)
  have h: "tenant_has_key example_db alice ''k1''"
    by (simp add: tenant_has_key_def t) (simp add: example_db_def acme_key_def acme_def)
  have nh: "\<not> tenant_has_key example_db alice ''k2''"
    by (simp add: tenant_has_key_def t)
       (simp add: example_db_def acme_key_def globex_key_def globex_key2_def acme_def)
  from key_not_found [of example_db alice "''k2''" "''hx_rotated_0001''" acme globex_key]
    key_not_found [of example_db alice "''k1''" "''hx_rotated_0001''" acme globex_key]
    key_not_found [of example_db heliox_admin "''k1''" "''hx_rotated_0001''" acme globex_key]
    t n d g h nh
  show ?thesis by simp
qed


subsection \<open>Roles\<close>

text \<open>
  C7. For every user, \<open>can_manage_tenant\<close> and \<open>can_manage_billing\<close> hold exactly when
  the role is admin or owner; \<open>get_current_admin\<close> raises HTTP 403 for every user whose
  role is not admin and returns the user unchanged otherwise.
\<close>

theorem role_capabilities:
  "can_manage_tenant u = (user_role u = ADMIN \<or> user_role u = OWNER) \<and>
   can_manage_billing u = (user_role u = ADMIN \<or> user_role u = OWNER) \<and>
   (user_role u \<noteq> ADMIN \<longrightarrow>
      get_current_admin u = Inl (HTTPException 403 ''Admin access required'')) \<and>
   (user_role u = ADMIN \<longrightarrow> get_current_admin u = Inr u)"
  by (simp add: can_manage_tenant_def can_manage_billing_def get_current_admin_def is_admin_def)

text \<open>An owner, a member and the administrator.\<close>

theorem role_capabilities_witness:
  "can_manage_tenant alice \<and> can_manage_billing alice \<and>
   \<not> can_manage_tenant bob \<and> \<not> can_manage_billing bob \<and>
   get_current_admin alice = Inl (HTTPException 403 ''Admin access required'') \<and>
   get_current_admin bob = Inl (HTTPException 403 ''Admin access required'') \<and>
   get_current_admin heliox_admin = Inr heliox_admin"
  using role_capabilities [of alice] role_capabilities [of bob] role_capabilities [of heliox_admin]
  by (simp add: alice_def bob_def heliox_admin_def)

subsection \<open>Facts about the concrete data\<close>

lemma example_tenants:
  "User_tenant example_db alice = Some acme"
  "User_tenant example_db bob = Some globex"
  "User_tenant example_db carol = Some initech"
  "User_tenant example_db heliox_admin = None"
  by (simp_all add: User_tenant_def example_db_def alice_def bob_def carol_def heliox_admin_def
        acme_def globex_def initech_def)

lemma example_plans:
  "Tenant_plan example_db acme = Some pro_plan"
  "Tenant_plan example_db globex = None"
  "Tenant_plan example_db initech = Some enterprise_plan"
  by (simp_all add: Tenant_plan_def example_db_def acme_def globex_def initech_def
        free_plan_def pro_plan_def enterprise_plan_def)

lemma example_keys:
  "db_api_keys example_db = [acme_key, globex_key, globex_key2]"
  "apikey_tenant_id acme_key = ''t-acme''"
  "apikey_tenant_id globex_key = ''t-globex''"
  "apikey_tenant_id globex_key2 = ''t-globex''"
  "apikey_id acme_key = ''k1''" "apikey_id globex_key = ''k2''" "apikey_id globex_key2 = ''k3''"
  "tenant_id acme = ''t-acme''" "tenant_id globex = ''t-globex''" "tenant_id initech = ''t-initech''"
  by (simp_all add: example_db_def acme_key_def globex_key_def globex_key2_def
        acme_def globex_def initech_def)

lemma example_times:
  "today_start_of noon_3_nov_2026 = 1793664000000000"
  "month_start_of noon_3_nov_2026 = 1793491200000000"
  by (simp_all add: today_start_of_def month_start_of_def noon_3_nov_2026_def
        microseconds_per_day_def day_of_month_def Let_def)

lemma example_counts:
  "count_requests example_db acme 1793664000000000 = 1"
  "count_requests example_db acme 1793491200000000 = 2"
  "count_requests example_db initech 1793664000000000 = 0"
  "count_requests example_db initech 1793491200000000 = 0"
  by (simp_all add: count_requests_def example_db_def acme_logs_def acme_def initech_def)

subsection \<open>Creating a key\<close>

lemma create_api_key_Some:
  assumes "User_tenant db user = Some tenant"
  shows "create_api_key data user db gen =
     (let plan = Tenant_plan db tenant;
          max_keys = (case plan of Some p \<Rightarrow> plan_max_api_keys p | None \<Rightarrow> 2)
      in if max_keys > 0 \<and> count_api_keys db tenant \<ge> max_keys
         then (Inl (HTTPException 403
                (''Plan limit reached: Your plan allows max '' @ str_int max_keys
                   @ '' API keys. Upgrade to create more.'')), db)
         else
           let api_key =
                \<lparr>apikey_id = gen_id gen,
                 apikey_tenant_id = tenant_id tenant,
                 apikey_name = car_name data,
                 apikey_key = gen_key gen,
                 apikey_key_prefix = take 10 (gen_key gen),
                 apikey_status = gen_status gen,
                 apikey_quota_daily = (case plan of Some p \<Rightarrow> plan_quota_daily p | None \<Rightarrow> 1000),
                 apikey_quota_monthly = (case plan of Some p \<Rightarrow> plan_quota_monthly p | None \<Rightarrow> 10000),
                 apikey_rate_limit_rps = Some (case plan of Some p \<Rightarrow> plan_rate_limit_rps p | None \<Rightarrow> 10.0),
                 apikey_rate_limit_burst = (case plan of Some p \<Rightarrow> plan_rate_limit_burst p | None \<Rightarrow> 20),
                 apikey_created_at = gen_created_at gen,
                 apikey_last_used_at = gen_last_used_at gen\<rparr>
           in (Inr (portal_api_key api_key (Some (gen_key gen))),
               db\<lparr>db_api_keys := db_api_keys db @ [api_key]\<rparr>))"
  using assms by (simp add: create_api_key_def require_tenant_Some Let_def)

text \<open>
  C3. For a user of a tenant, \<open>create_api_key\<close> rejects with HTTP 403 exactly when the
  maximum of keys (the plan's \<open>max_api_keys\<close>, 2 for a tenant without a plan) is greater
  than 0 and the tenant already owns at least that many keys; on rejection the database
  is unchanged, otherwise exactly one key is appended, and it belongs to the tenant.
\<close>

theorem create_api_key_plan_limit:
  assumes "User_tenant db user = Some tenant"
  shows
    "raises 403 (fst (create_api_key data user db gen)) =
       ((case Tenant_plan db tenant of Some p \<Rightarrow> plan_max_api_keys p | None \<Rightarrow> 2) > 0 \<and>
        int (length (filter (\<lambda>k. apikey_tenant_id k = tenant_id tenant) (db_api_keys db)))
          \<ge> (case Tenant_plan db tenant of Some p \<Rightarrow> plan_max_api_keys p | None \<Rightarrow> 2)) \<and>
     (raises 403 (fst (create_api_key data user db gen)) \<longrightarrow>
        snd (create_api_key data user db gen) = db) \<and>
     (\<not> raises 403 (fst (create_api_key data user db gen)) \<longrightarrow>
        (\<exists>resp k. fst (create_api_key data user db gen) = Inr resp \<and>
                  db_api_keys (snd (create_api_key data user db gen)) = db_api_keys db @ [k] \<and>
                  apikey_tenant_id k = tenant_id tenant \<and>
                  apikey_id k = gen_id gen \<and> pk_id resp = gen_id gen))"
  by (simp add: create_api_key_Some [OF assms] Let_def raises_simps count_api_keys_def
        portal_api_key_def)

text \<open>
  Globex has no plan and owns two keys: rejected. Acme is on the Pro plan (10 keys) and
  owns one: the key \<open>k4\<close> is created.
\<close>

theorem create_api_key_plan_limit_witness:
  "User_tenant example_db bob = Some globex \<and>
   raises 403 (fst (create_api_key example_request bob example_db example_defaults)) \<and>
   snd (create_api_key example_request bob example_db example_defaults) = example_db \<and>
   User_tenant example_db alice = Some acme \<and>
   \<not> raises 403 (fst (create_api_key example_request alice example_db example_defaults)) \<and>
   (\<exists>k. db_api_keys (snd (create_api_key example_request alice example_db example_defaults))
          = db_api_keys example_db @ [k] \<and>
        apikey_tenant_id k = ''t-acme'' \<and> apikey_id k = ''k4'')"
proof -
  note b = create_api_key_plan_limit [OF example_tenants(2), of example_request example_defaults]
  note a = create_api_key_plan_limit [OF example_tenants(1), of example_request example_defaults]
  from b have b1: "raises 403 (fst (create_api_key example_request bob example_db example_defaults))"
    by (simp add: example_plans example_keys)
  with b have b2: "snd (create_api_key example_request bob example_db example_defaults) = example_db"
    by blast
  from a have a1:
    "\<not> raises 403 (fst (create_api_key example_request alice example_db example_defaults))"
    by (simp add: example_plans example_keys pro_plan_def)
  with a obtain k where
    "db_api_keys (snd (create_api_key example_request alice example_db example_defaults))
       = db_api_keys example_db @ [k]"
    "apikey_tenant_id k = tenant_id acme" "apikey_id k = gen_id example_defaults"
    by blast
  then have a2:
    "\<exists>k. db_api_keys (snd (create_api_key example_request alice example_db example_defaults))
          = db_api_keys example_db @ [k] \<and>
        apikey_tenant_id k = ''t-acme'' \<and> apikey_id k = ''k4''"
    by (auto simp: example_keys example_defaults_def)
  from b1 b2 a1 a2 example_tenants(1,2) show ?thesis by blast
qed

text \<open>
  C2. Whenever \<open>create_api_key\<close> succeeds, the new ApiKey's \<open>quota_daily\<close>,
  \<open>quota_monthly\<close>, \<open>rate_limit_rps\<close> and \<open>rate_limit_burst\<close> are those of the
  tenant's plan, and 1000, 10000, 10.0 and 20 when the tenant has no plan; in both cases
  \<open>rate_limit_rps\<close> is a value, not \<open>None\<close>.
\<close>

theorem create_api_key_limits:
  assumes "fst (create_api_key data user db gen) = Inr resp"
  shows
    "\<exists>tenant k.
       User_tenant db user = Some tenant \<and>
       db_api_keys (snd (create_api_key data user db gen)) = db_api_keys db @ [k] \<and>
       apikey_tenant_id k = tenant_id tenant \<and>
       (case Tenant_plan db tenant of
          Some plan \<Rightarrow>
            apikey_quota_daily k = plan_quota_daily plan \<and>
            apikey_quota_monthly k = plan_quota_monthly plan \<and>
            apikey_rate_limit_rps k = Some (plan_rate_limit_rps plan) \<and>
            apikey_rate_limit_burst k = plan_rate_limit_burst plan
        | None \<Rightarrow>
            apikey_quota_daily k = 1000 \<and>
            apikey_quota_monthly k = 10000 \<and>
            apikey_rate_limit_rps k = Some 10 \<and>
            apikey_rate_limit_burst k = 20) \<and>
       pk_quota_daily resp = apikey_quota_daily k \<and>
       pk_quota_monthly resp = apikey_quota_monthly k \<and>
       pk_rate_limit_rps resp = apikey_rate_limit_rps k"
proof (cases "User_tenant db user")
  case None
  with assms show ?thesis
    by (simp add: create_api_key_def require_tenant_None)
next
  case (Some tenant)
  with assms show ?thesis
    by (auto simp: create_api_key_Some [OF Some] Let_def portal_api_key_def
             split: if_splits option.splits)
qed

text \<open>A key for Acme (Pro plan), and a key for Globex (no plan) once it owns one key only.\<close>

theorem create_api_key_limits_witness:
  "(\<exists>k. db_api_keys (snd (create_api_key example_request alice example_db example_defaults))
          = db_api_keys example_db @ [k] \<and>
        apikey_quota_daily k = 50000 \<and> apikey_quota_monthly k = 500000 \<and>
        apikey_rate_limit_rps k = Some 100 \<and> apikey_rate_limit_burst k = 200) \<and>
   (\<exists>k. db_api_keys (snd (create_api_key example_request bob
                             (example_db\<lparr>db_api_keys := [acme_key, globex_key]\<rparr>) example_defaults))
          = [acme_key, globex_key, k] \<and>
        apikey_quota_daily k = 1000 \<and> apikey_quota_monthly k = 10000 \<and>
        apikey_rate_limit_rps k = Some 10 \<and> apikey_rate_limit_burst k = 20)"
proof -
  let ?db = "example_db\<lparr>db_api_keys := [acme_key, globex_key]\<rparr>"
  have t: "User_tenant ?db bob = Some globex"
    by (simp add: User_tenant_def example_db_def bob_def acme_def globex_def)
  have p: "Tenant_plan ?db globex = None"
    by (simp add: Tenant_plan_def globex_def)
  obtain r1 where r1: "fst (create_api_key example_request alice example_db example_defaults) = Inr r1"
    by (simp add: create_api_key_Some [OF example_tenants(1)] example_plans example_keys
          count_api_keys_def pro_plan_def Let_def)
  obtain r2 where r2: "fst (create_api_key example_request bob ?db example_defaults) = Inr r2"
    by (simp add: create_api_key_Some [OF t] p example_keys count_api_keys_def Let_def)
  from create_api_key_limits [OF r1] have first:
    "\<exists>k. db_api_keys (snd (create_api_key example_request alice example_db example_defaults))
          = db_api_keys example_db @ [k] \<and>
        apikey_quota_daily k = 50000 \<and> apikey_quota_monthly k = 500000 \<and>
        apikey_rate_limit_rps k = Some 100 \<and> apikey_rate_limit_burst k = 200"
    by (auto simp: example_tenants example_plans pro_plan_def)
  from create_api_key_limits [OF r2] have second:
    "\<exists>k. db_api_keys (snd (create_api_key example_request bob ?db example_defaults))
          = [acme_key, globex_key, k] \<and>
        apikey_quota_daily k = 1000 \<and> apikey_quota_monthly k = 10000 \<and>
        apikey_rate_limit_rps k = Some 10 \<and> apikey_rate_limit_burst k = 20"
    by (auto simp: t p)
  from first second show ?thesis by (rule conjI)
qed

subsection \<open>Usage percentages\<close>

text \<open>
  C4. For every user of a tenant, \<open>get_usage\<close> returns a summary in which
  \<open>daily_percent\<close> is \<open>min(100, daily_requests / daily_limit * 100)\<close> when
  \<open>daily_limit > 0\<close> and 0 when \<open>daily_limit = 0\<close>, and likewise
  \<open>monthly_percent\<close> from \<open>monthly_requests\<close> and \<open>monthly_limit\<close>; the requests are
  the tenant's logs since UTC midnight and since the first of the month, the limits the
  plan's quotas (1000 and 10000 without a plan).
\<close>

theorem get_usage_percent:
  assumes "User_tenant db user = Some tenant"
  shows
    "\<exists>s. get_usage user db now = (Inr s, db) \<and>
       us_daily_requests s = count_requests db tenant (today_start_of now) \<and>
       us_monthly_requests s = count_requests db tenant (month_start_of now) \<and>
       us_daily_limit s = (case Tenant_plan db tenant of Some p \<Rightarrow> plan_quota_daily p | None \<Rightarrow> 1000) \<and>
       us_monthly_limit s
         = (case Tenant_plan db tenant of Some p \<Rightarrow> plan_quota_monthly p | None \<Rightarrow> 10000) \<and>
       (us_daily_limit s > 0 \<longrightarrow>
          us_daily_percent s
            = min 100 (real_of_int (us_daily_requests s) / real_of_int (us_daily_limit s) * 100)) \<and>
       (us_daily_limit s = 0 \<longrightarrow> us_daily_percent s = 0) \<and>
       (us_monthly_limit s > 0 \<longrightarrow>
          us_monthly_percent s
            = min 100 (real_of_int (us_monthly_requests s) / real_of_int (us_monthly_limit s) * 100)) \<and>
       (us_monthly_limit s = 0 \<longrightarrow> us_monthly_percent s = 0)"
  using assms
  by (simp add: get_usage_def require_tenant_Some Let_def min.commute)

text \<open>
  Acme at noon of 3 November 2026: one request today of 50000, two this month of 500000.
  Initech is on the Enterprise plan, whose quotas are 0.
\<close>

theorem get_usage_percent_witness:
  "(\<exists>s. get_usage alice example_db noon_3_nov_2026 = (Inr s, example_db) \<and>
        us_daily_requests s = 1 \<and> us_daily_limit s = 50000 \<and> us_daily_percent s = 1 / 500 \<and>
        us_monthly_requests s = 2 \<and> us_monthly_limit s = 500000 \<and>
        us_monthly_percent s = 1 / 2500) \<and>
   (\<exists>s. get_usage carol example_db noon_3_nov_2026 = (Inr s, example_db) \<and>
        us_daily_limit s = 0 \<and> us_daily_percent s = 0 \<and>
        us_monthly_limit s = 0 \<and> us_monthly_percent s = 0)"
proof -
  from get_usage_percent [OF example_tenants(1), of noon_3_nov_2026]
  obtain s where s: "get_usage alice example_db noon_3_nov_2026 = (Inr s, example_db)"
      "us_daily_requests s = 1" "us_daily_limit s = 50000"
      "us_monthly_requests s = 2" "us_monthly_limit s = 500000"
      "us_daily_limit s > 0 \<longrightarrow>
          us_daily_percent s
            = min 100 (real_of_int (us_daily_requests s) / real_of_int (us_daily_limit s) * 100)"
      "us_monthly_limit s > 0 \<longrightarrow>
          us_monthly_percent s
            = min 100 (real_of_int (us_monthly_requests s) / real_of_int (us_monthly_limit s) * 100)"
    by (auto simp: example_plans example_times example_counts pro_plan_def)
  from get_usage_percent [OF example_tenants(3), of noon_3_nov_2026]
  obtain s' where s': "get_usage carol example_db noon_3_nov_2026 = (Inr s', example_db)"
      "us_daily_limit s' = 0" "us_monthly_limit s' = 0"
      "us_daily_percent s' = 0" "us_monthly_percent s' = 0"
    by (auto simp: example_plans enterprise_plan_def)
  from s have "us_daily_percent s = 1 / 500" "us_monthly_percent s = 1 / 2500" by simp_all
  with s s' show ?thesis by simp
qed

subsection \<open>Rotating and toggling a key\<close>

lemma select_api_key_found:
  assumes "distinct (map apikey_id (db_api_keys db))" and "k \<in> set (db_api_keys db)"
    and "apikey_tenant_id k = tenant_id tenant"
  shows "select_api_key db (apikey_id k) tenant = Inr (Some k)"
  using assms
  by (simp add: select_api_key_def
        filter_primary_key [where f = apikey_id and Q = "\<lambda>r. apikey_tenant_id r = tenant_id tenant"])

lemma flush_api_key_row:
  assumes "distinct (map apikey_id (db_api_keys db))" and "k \<in> set (db_api_keys db)"
    and "apikey_id k' = apikey_id k"
  shows "flush_api_key k' db = db\<lparr>db_api_keys := map (\<lambda>r. if r = k then k' else r) (db_api_keys db)\<rparr>"
  using assms
  by (simp add: flush_api_key_def map_primary_key [where f = apikey_id])

lemma User_tenant_api_keys: "User_tenant (db\<lparr>db_api_keys := ks\<rparr>) user = User_tenant db user"
  by (simp add: User_tenant_def split: option.splits)

lemma primary_key_unique:
  "distinct (map f xs) \<Longrightarrow> a \<in> set xs \<Longrightarrow> b \<in> set xs \<Longrightarrow> f a = f b \<Longrightarrow> a = b"
  by (simp add: distinct_map inj_on_def)

lemma replaced_row_mem: "k \<in> set xs \<Longrightarrow> k' \<in> set (map (\<lambda>r. if r = k then k' else r) xs)"
  by (induction xs) auto

lemma replace_back:
  assumes "distinct xs" and "k' \<notin> set xs \<or> k' = k"
  shows "map (\<lambda>r. if r = k' then k else r) (map (\<lambda>r. if r = k then k' else r) xs) = xs"
  using assms by (induction xs) auto

text \<open>
  C5. For every ApiKey of the caller's tenant (the ids of the table being distinct, as a
  primary key is), \<open>rotate_api_key\<close> succeeds, replaces the key's secret with the newly
  generated one, sets \<open>key_prefix\<close> to its first 10 characters and leaves \<open>name\<close>,
  \<open>status\<close>, \<open>quota_daily\<close>, \<open>quota_monthly\<close>, \<open>rate_limit_rps\<close>,
  \<open>rate_limit_burst\<close>, \<open>created_at\<close> and \<open>last_used_at\<close> of the row as they were; no
  other row and no other table changes.
\<close>

theorem rotate_api_key_frame:
  assumes "User_tenant db user = Some tenant"
    and "k \<in> set (db_api_keys db)"
    and "apikey_tenant_id k = tenant_id tenant"
    and "distinct (map apikey_id (db_api_keys db))"
  shows
    "\<exists>resp k'.
       rotate_api_key (apikey_id k) user db new_key
         = (Inr resp, db\<lparr>db_api_keys := map (\<lambda>r. if r = k then k' else r) (db_api_keys db)\<rparr>) \<and>
       apikey_key k' = new_key \<and>
       apikey_key_prefix k' = take 10 new_key \<and>
       apikey_id k' = apikey_id k \<and>
       apikey_tenant_id k' = apikey_tenant_id k \<and>
       apikey_name k' = apikey_name k \<and>
       apikey_status k' = apikey_status k \<and>
       apikey_quota_daily k' = apikey_quota_daily k \<and>
       apikey_quota_monthly k' = apikey_quota_monthly k \<and>
       apikey_rate_limit_rps k' = apikey_rate_limit_rps k \<and>
       apikey_rate_limit_burst k' = apikey_rate_limit_burst k \<and>
       apikey_created_at k' = apikey_created_at k \<and>
       apikey_last_used_at k' = apikey_last_used_at k \<and>
       pk_key resp = Some new_key \<and> pk_key_prefix resp = take 10 new_key"
proof -
  let ?k' = "k\<lparr>apikey_key := new_key, apikey_key_prefix := take 10 new_key\<rparr>"
  have "rotate_api_key (apikey_id k) user db new_key
          = (Inr (portal_api_key ?k' (Some new_key)), flush_api_key ?k' db)"
    using assms
    by (simp add: rotate_api_key_def require_tenant_Some select_api_key_found Let_def)
  moreover have "flush_api_key ?k' db
          = db\<lparr>db_api_keys := map (\<lambda>r. if r = k then ?k' else r) (db_api_keys db)\<rparr>"
    using assms(4,2) by (rule flush_api_key_row) simp
  ultimately show ?thesis
    by (intro exI [of _ "portal_api_key ?k' (Some new_key)"] exI [of _ ?k'])
       (simp add: portal_api_key_def)
qed

text \<open>Alice rotates the key of Acme.\<close>

theorem rotate_api_key_frame_witness:
  "\<exists>resp k'.
     rotate_api_key ''k1'' alice example_db ''hx_rotated_secret_0001''
       = (Inr resp, example_db\<lparr>db_api_keys := [k', globex_key, globex_key2]\<rparr>) \<and>
     apikey_key k' = ''hx_rotated_secret_0001'' \<and> apikey_key_prefix k' = ''hx_rotated'' \<and>
     apikey_name k' = ''prod'' \<and> apikey_status k' = ACTIVE \<and>
     apikey_quota_daily k' = 50000 \<and> apikey_quota_monthly k' = 500000 \<and>
     apikey_rate_limit_rps k' = Some 100 \<and> apikey_rate_limit_burst k' = 200 \<and>
     apikey_created_at k' = 1790000000000000 \<and> apikey_last_used_at k' = None \<and>
     pk_key resp = Some ''hx_rotated_secret_0001''"
proof -
  have m: "acme_key \<in> set (db_api_keys example_db)"
    and o: "apikey_tenant_id acme_key = tenant_id acme"
    and d: "distinct (map apikey_id (db_api_keys example_db))"
    and n: "globex_key \<noteq> acme_key" "globex_key2 \<noteq> acme_key"
    by (simp_all add: example_db_def acme_key_def globex_key_def globex_key2_def acme_def)
  from rotate_api_key_frame [OF example_tenants(1) m o d, of "''hx_rotated_secret_0001''"]
  obtain resp k' where
    "rotate_api_key (apikey_id acme_key) alice example_db ''hx_rotated_secret_0001''
       = (Inr resp, example_db\<lparr>db_api_keys :=
            map (\<lambda>r. if r = acme_key then k' else r) (db_api_keys example_db)\<rparr>)"
    "apikey_key k' = ''hx_rotated_secret_0001''"
    "apikey_key_prefix k' = take 10 ''hx_rotated_secret_0001''"
    "apikey_name k' = apikey_name acme_key" "apikey_status k' = apikey_status acme_key"
    "apikey_quota_daily k' = apikey_quota_daily acme_key"
    "apikey_quota_monthly k' = apikey_quota_monthly acme_key"
    "apikey_rate_limit_rps k' = apikey_rate_limit_rps acme_key"
    "apikey_rate_limit_burst k' = apikey_rate_limit_burst acme_key"
    "apikey_created_at k' = apikey_created_at acme_key"
    "apikey_last_used_at k' = apikey_last_used_at acme_key"
    "pk_key resp = Some ''hx_rotated_secret_0001''"
    by blast
  then show ?thesis
    using n by (intro exI [of _ resp] exI [of _ k']) (simp add: example_keys acme_key_def)
qed

text \<open>
  C6. For every ApiKey of the caller's tenant, \<open>toggle_api_key\<close> turns the status
  active into disabled and disabled into active and changes nothing else, so that a
  second call restores the database; the \<open>is_active\<close> of each response equals
  (status = active) for the status the key then has.
\<close>

theorem toggle_api_key_involution:
  assumes "User_tenant db user = Some tenant"
    and "k \<in> set (db_api_keys db)"
    and "apikey_tenant_id k = tenant_id tenant"
    and "distinct (map apikey_id (db_api_keys db))"
  shows
    "\<exists>resp k' resp'.
       toggle_api_key (apikey_id k) user db
         = (Inr resp, db\<lparr>db_api_keys := map (\<lambda>r. if r = k then k' else r) (db_api_keys db)\<rparr>) \<and>
       toggle_api_key (apikey_id k) user
           (db\<lparr>db_api_keys := map (\<lambda>r. if r = k then k' else r) (db_api_keys db)\<rparr>)
         = (Inr resp', db) \<and>
       k' = k\<lparr>apikey_status := apikey_status k'\<rparr> \<and>
       (apikey_status k = ACTIVE \<longrightarrow> apikey_status k' = DISABLED) \<and>
       (apikey_status k = DISABLED \<longrightarrow> apikey_status k' = ACTIVE) \<and>
       pk_is_active resp = (apikey_status k' = ACTIVE) \<and>
       pk_status resp = ApiKeyStatus_value (apikey_status k') \<and>
       pk_is_active resp' = (apikey_status k = ACTIVE) \<and>
       pk_status resp' = ApiKeyStatus_value (apikey_status k)"
proof -
  let ?s = "case apikey_status k of ACTIVE \<Rightarrow> DISABLED | DISABLED \<Rightarrow> ACTIVE"
  let ?k' = "k\<lparr>apikey_status := ?s\<rparr>"
  let ?db' = "db\<lparr>db_api_keys := map (\<lambda>r. if r = k then ?k' else r) (db_api_keys db)\<rparr>"
  have flush: "flush_api_key ?k' db = ?db'"
    using assms(4,2) by (rule flush_api_key_row) simp
  have first: "toggle_api_key (apikey_id k) user db = (Inr (portal_api_key ?k' None), ?db')"
    using assms flush
    by (cases "apikey_status k")
       (simp_all add: toggle_api_key_def require_tenant_Some select_api_key_found Let_def)
  have t': "User_tenant ?db' user = Some tenant"
    using assms(1) by (simp add: User_tenant_api_keys)
  have ids: "map apikey_id (db_api_keys ?db') = map apikey_id (db_api_keys db)"
    by (simp add: comp_def cong: map_cong)
  have d': "distinct (map apikey_id (db_api_keys ?db'))"
    using assms(4) by (simp only: ids)
  have m': "?k' \<in> set (db_api_keys ?db')"
    using assms(2) by (simp add: replaced_row_mem del: map_map)
  have o': "apikey_tenant_id ?k' = tenant_id tenant"
    using assms(3) by simp
  have twice: "(?k')\<lparr>apikey_status :=
                 (if apikey_status ?k' = ACTIVE then DISABLED else ACTIVE)\<rparr> = k"
    by (cases "apikey_status k") simp_all
  have dk: "distinct (db_api_keys db)"
    using assms(4) by (simp add: distinct_map)
  have fresh: "?k' \<notin> set (db_api_keys db) \<or> ?k' = k"
  proof (rule disjCI)
    assume "?k' \<noteq> k"
    show "?k' \<notin> set (db_api_keys db)"
    proof
      assume mem: "?k' \<in> set (db_api_keys db)"
      have "?k' = k"
        by (rule primary_key_unique [OF assms(4) mem assms(2)]) simp
      with \<open>?k' \<noteq> k\<close> show False by simp
    qed
  qed
  have restore: "flush_api_key k ?db' = db"
  proof -
    have "flush_api_key k ?db'
            = (?db')\<lparr>db_api_keys := map (\<lambda>r. if r = ?k' then k else r) (db_api_keys ?db')\<rparr>"
      using d' m' by (rule flush_api_key_row) simp
    also have "\<dots> = db"
      using replace_back [OF dk fresh] by simp
    finally show ?thesis .
  qed
  have second: "toggle_api_key (apikey_id k) user ?db' = (Inr (portal_api_key k None), db)"
  proof -
    have "select_api_key ?db' (apikey_id ?k') tenant = Inr (Some ?k')"
      using d' m' o' by (rule select_api_key_found)
    then have sel: "select_api_key ?db' (apikey_id k) tenant = Inr (Some ?k')" by simp
    show ?thesis
      using twice restore
      by (simp add: toggle_api_key_def require_tenant_Some [OF t'] sel Let_def
               split: if_splits)
  qed
  show ?thesis
    using first second
    by (intro exI [of _ "portal_api_key ?k' None"] exI [of _ ?k'] exI [of _ "portal_api_key k None"])
       (cases "apikey_status k"; simp add: portal_api_key_def is_active_def)
qed

text \<open>
  Alice disables the active key of Acme and enables it again; Bob enables the disabled
  key of Globex and disables it again.
\<close>

theorem toggle_api_key_involution_witness:
  "(\<exists>resp resp'.
      toggle_api_key ''k1'' alice example_db
        = (Inr resp, example_db\<lparr>db_api_keys :=
                       [acme_key\<lparr>apikey_status := DISABLED\<rparr>, globex_key, globex_key2]\<rparr>) \<and>
      toggle_api_key ''k1'' alice
          (example_db\<lparr>db_api_keys :=
             [acme_key\<lparr>apikey_status := DISABLED\<rparr>, globex_key, globex_key2]\<rparr>)
        = (Inr resp', example_db) \<and>
      \<not> pk_is_active resp \<and> pk_status resp = ''disabled'' \<and>
      pk_is_active resp' \<and> pk_status resp' = ''active'') \<and>
   (\<exists>resp resp'.
      toggle_api_key ''k2'' bob example_db
        = (Inr resp, example_db\<lparr>db_api_keys :=
                       [acme_key, globex_key\<lparr>apikey_status := ACTIVE\<rparr>, globex_key2]\<rparr>) \<and>
      toggle_api_key ''k2'' bob
          (example_db\<lparr>db_api_keys :=
             [acme_key, globex_key\<lparr>apikey_status := ACTIVE\<rparr>, globex_key2]\<rparr>)
        = (Inr resp', example_db) \<and>
      pk_is_active resp \<and> pk_status resp = ''active'' \<and>
      \<not> pk_is_active resp' \<and> pk_status resp' = ''disabled'')"
proof -
  have d: "distinct (map apikey_id (db_api_keys example_db))"
    by (simp add: example_db_def acme_key_def globex_key_def globex_key2_def)
  have m: "acme_key \<in> set (db_api_keys example_db)"
    and o: "apikey_tenant_id acme_key = tenant_id acme"
    and n: "globex_key \<noteq> acme_key" "globex_key2 \<noteq> acme_key"
    and s: "apikey_status acme_key = ACTIVE"
    by (simp_all add: example_db_def acme_key_def globex_key_def globex_key2_def acme_def)
  from toggle_api_key_involution [OF example_tenants(1) m o d]
  obtain resp k' resp' where r:
    "toggle_api_key (apikey_id acme_key) alice example_db
       = (Inr resp, example_db\<lparr>db_api_keys :=
            map (\<lambda>r. if r = acme_key then k' else r) (db_api_keys example_db)\<rparr>)"
    "toggle_api_key (apikey_id acme_key) alice
         (example_db\<lparr>db_api_keys :=
            map (\<lambda>r. if r = acme_key then k' else r) (db_api_keys example_db)\<rparr>)
       = (Inr resp', example_db)"
    "k' = acme_key\<lparr>apikey_status := apikey_status k'\<rparr>"
    "apikey_status acme_key = ACTIVE \<longrightarrow> apikey_status k' = DISABLED"
    "pk_is_active resp = (apikey_status k' = ACTIVE)"
    "pk_status resp = ApiKeyStatus_value (apikey_status k')"
    "pk_is_active resp' = (apikey_status acme_key = ACTIVE)"
    "pk_status resp' = ApiKeyStatus_value (apikey_status acme_key)"
    by blast
  from r(4) s have s': "apikey_status k' = DISABLED" by simp
  with r(3) have k': "k' = acme_key\<lparr>apikey_status := DISABLED\<rparr>" by simp
  from r(1,2,5-8) s s' n have disable:
    "\<exists>resp resp'.
      toggle_api_key ''k1'' alice example_db
        = (Inr resp, example_db\<lparr>db_api_keys :=
                       [acme_key\<lparr>apikey_status := DISABLED\<rparr>, globex_key, globex_key2]\<rparr>) \<and>
      toggle_api_key ''k1'' alice
          (example_db\<lparr>db_api_keys :=
             [acme_key\<lparr>apikey_status := DISABLED\<rparr>, globex_key, globex_key2]\<rparr>)
        = (Inr resp', example_db) \<and>
      \<not> pk_is_active resp \<and> pk_status resp = ''disabled'' \<and>
      pk_is_active resp' \<and> pk_status resp' = ''active''"
    by (intro exI [of _ resp] exI [of _ resp']) (simp add: example_keys k')
  have gm: "globex_key \<in> set (db_api_keys example_db)"
    and go: "apikey_tenant_id globex_key = tenant_id globex"
    and gn: "acme_key \<noteq> globex_key" "globex_key2 \<noteq> globex_key"
    and gs: "apikey_status globex_key = DISABLED"
    by (simp_all add: example_db_def acme_key_def globex_key_def globex_key2_def globex_def)
  from toggle_api_key_involution [OF example_tenants(2) gm go d]
  obtain gresp g' gresp' where g:
    "toggle_api_key (apikey_id globex_key) bob example_db
       = (Inr gresp, example_db\<lparr>db_api_keys :=
            map (\<lambda>r. if r = globex_key then g' else r) (db_api_keys example_db)\<rparr>)"
    "toggle_api_key (apikey_id globex_key) bob
         (example_db\<lparr>db_api_keys :=
            map (\<lambda>r. if r = globex_key then g' else r) (db_api_keys example_db)\<rparr>)
       = (Inr gresp', example_db)"
    "g' = globex_key\<lparr>apikey_status := apikey_status g'\<rparr>"
    "apikey_status globex_key = DISABLED \<longrightarrow> apikey_status g' = ACTIVE"
    "pk_is_active gresp = (apikey_status g' = ACTIVE)"
    "pk_status gresp = ApiKeyStatus_value (apikey_status g')"
    "pk_is_active gresp' = (apikey_status globex_key = ACTIVE)"
    "pk_status gresp' = ApiKeyStatus_value (apikey_status globex_key)"
    by blast
  from g(4) gs have gs': "apikey_status g' = ACTIVE" by simp
  with g(3) have g': "g' = globex_key\<lparr>apikey_status := ACTIVE\<rparr>" by simp
  from g(1,2,5-8) gs gs' gn have enable:
    "\<exists>resp resp'.
      toggle_api_key ''k2'' bob example_db
        = (Inr resp, example_db\<lparr>db_api_keys :=
                       [acme_key, globex_key\<lparr>apikey_status := ACTIVE\<rparr>, globex_key2]\<rparr>) \<and>
      toggle_api_key ''k2'' bob
          (example_db\<lparr>db_api_keys :=
             [acme_key, globex_key\<lparr>apikey_status := ACTIVE\<rparr>, globex_key2]\<rparr>)
        = (Inr resp', example_db) \<and>
      pk_is_active resp \<and> pk_status resp = ''active'' \<and>
      \<not> pk_is_active resp' \<and> pk_status resp' = ''disabled''"
    by (intro exI [of _ gresp] exI [of _ gresp']) (simp add: example_keys g')
  from disable enable show ?thesis by (rule conjI)
qed

subsection \<open>The token bucket\<close>

lemma rate_limit_admit:
  "1 \<le> min (capacity b) (tokens b + (now - last_refill b) * refill_rate b) \<Longrightarrow>
   rate_limit b now =
     (Admitted,
      b\<lparr>tokens := min (capacity b) (tokens b + (now - last_refill b) * refill_rate b) - 1,
        last_refill := now\<rparr>)"
  by (simp add: rate_limit_def advance_def Let_def)

lemma rate_limit_reject:
  "min (capacity b) (tokens b + (now - last_refill b) * refill_rate b) < 1 \<Longrightarrow>
   rate_limit b now =
     (RateLimited
        ((1 - min (capacity b) (tokens b + (now - last_refill b) * refill_rate b)) / refill_rate b),
      b\<lparr>tokens := min (capacity b) (tokens b + (now - last_refill b) * refill_rate b),
        last_refill := now\<rparr>)"
  by (auto simp: rate_limit_def advance_def Let_def min_def split: if_splits)

lemma burst_scenario:
  "rate_limit_all (new_bucket 10 20 t0) (replicate 30 t0)
     = replicate 20 Admitted @ replicate 10 (RateLimited (1 / 10))"
  by (simp add: new_bucket_def rate_limit_def advance_def eval_nat_numeral)

text \<open>
  C8. On each request the bucket is advanced to
  \<open>tokens = min(capacity, tokens + elapsed_seconds * refill_rate)\<close>; when that is at
  least 1 the request is admitted and one token is taken, otherwise it is rejected with
  \<open>RateLimited\<close> carrying \<open>retry_after = (1 - tokens) / refill_rate\<close>, which is positive
  for a positive rate. For a key with \<open>rate_limit_rps = 10\<close> and burst 20, of 30
  requests at one instant the first 20 are admitted and the other 10 are rejected with
  \<open>retry_after = 1/10 > 0\<close>.
\<close>

theorem token_bucket:
  "(1 \<le> min (capacity b) (tokens b + (now - last_refill b) * refill_rate b) \<longrightarrow>
      rate_limit b now =
        (Admitted,
         b\<lparr>tokens := min (capacity b) (tokens b + (now - last_refill b) * refill_rate b) - 1,
           last_refill := now\<rparr>)) \<and>
   (min (capacity b) (tokens b + (now - last_refill b) * refill_rate b) < 1 \<longrightarrow>
      rate_limit b now =
        (RateLimited
           ((1 - min (capacity b) (tokens b + (now - last_refill b) * refill_rate b))
              / refill_rate b),
         b\<lparr>tokens := min (capacity b) (tokens b + (now - last_refill b) * refill_rate b),
           last_refill := now\<rparr>)) \<and>
   (min (capacity b) (tokens b + (now - last_refill b) * refill_rate b) < 1 \<and> 0 < refill_rate b \<longrightarrow>
      0 < (1 - min (capacity b) (tokens b + (now - last_refill b) * refill_rate b)) / refill_rate b) \<and>
   rate_limit_all (new_bucket 10 20 t0) (replicate 30 t0)
     = replicate 20 Admitted @ replicate 10 (RateLimited (1 / 10)) \<and>
   (0::real) < 1 / 10"
  using rate_limit_admit [of b now] rate_limit_reject [of b now] burst_scenario [of t0]
  by simp

text \<open>
  A bucket holding half a token, a tenth of a second later (admitted) and a hundredth of
  a second later (rejected), and the burst of 30 at time 0.
\<close>

theorem token_bucket_witness:
  "rate_limit \<lparr>tokens = 1 / 2, capacity = 20, refill_rate = 10, last_refill = 0\<rparr> (1 / 10)
     = (Admitted, \<lparr>tokens = 1 / 2, capacity = 20, refill_rate = 10, last_refill = 1 / 10\<rparr>) \<and>
   rate_limit \<lparr>tokens = 1 / 2, capacity = 20, refill_rate = 10, last_refill = 0\<rparr> (1 / 100)
     = (RateLimited (1 / 25),
        \<lparr>tokens = 3 / 5, capacity = 20, refill_rate = 10, last_refill = 1 / 100\<rparr>) \<and>
   rate_limit_all (new_bucket 10 20 0) (replicate 30 0)
     = replicate 20 Admitted @ replicate 10 (RateLimited (1 / 10))"
  using token_bucket [of "\<lparr>tokens = 1 / 2, capacity = 20, refill_rate = 10, last_refill = 0\<rparr>" "1 / 10" 0]
    token_bucket [of "\<lparr>tokens = 1 / 2, capacity = 20, refill_rate = 10, last_refill = 0\<rparr>" "1 / 100" 0]
  by simp

subsection \<open>Signup and password reset\<close>

lemma filter_unique_key:
  assumes "distinct (map f xs)" and "k \<in> set xs"
  shows "filter (\<lambda>r. f r = f k) xs = [k]"
  using filter_primary_key [OF assms, where Q = "\<lambda>r. True"] by simp

lemma select_user_by_email:
  assumes "distinct (map user_email (db_users db))" and "u \<in> set (db_users db)"
    and "user_email u = email"
  shows "scalar_one_or_none (filter (\<lambda>r. user_email r = email) (db_users db)) = Inr (Some u)"
  using filter_unique_key [OF assms(1,2)] assms(3) by simp

lemma example_users:
  "db_users example_db = [alice, bob, carol, heliox_admin]"
  "distinct (map user_email (db_users example_db))"
  "user_id alice = ''u-alice''" "user_id bob = ''u-bob''"
  "user_id carol = ''u-carol''" "user_id heliox_admin = ''u-admin''"
  "user_email alice = ''alice@acme.test''" "user_email bob = ''bob@globex.test''"
  "user_email carol = ''carol@initech.test''" "user_email heliox_admin = ''admin@heliox.dev''"
  "user_email_verified alice" "\<not> user_email_verified bob"
  by (simp_all add: example_db_def alice_def bob_def carol_def heliox_admin_def)

text \<open>
  C9. On the code, when \<open>signup\<close> is called with the email of an existing user (emails
  being unique in the table): if that user is verified, it raises HTTP 400 "Email already
  registered" and the database is unchanged. If the user is not verified, it adds no
  user and no tenant, writes the new OTP, expiry, password hash and name to the session
  and then raises \<open>AttributeError\<close> at \<open>email_service.send_otp_email\<close>, a method the
  class \<open>EmailService\<close> does not have: no success response is returned.
\<close>

theorem signup_existing_email_outcome:
  assumes "u \<in> set (db_users db)"
    and "user_email u = sr_email data"
    and "distinct (map user_email (db_users db))"
  shows
    "(user_email_verified u \<longrightarrow>
        signup data db env = (Inl (HTTPException 400 ''Email already registered''), db)) \<and>
     (\<not> user_email_verified u \<longrightarrow>
        fst (signup data db env) = Inl (AttributeError ''EmailService'' ''send_otp_email'') \<and>
        (\<forall>resp. fst (signup data db env) \<noteq> Inr resp) \<and>
        db_tenants (snd (signup data db env)) = db_tenants db \<and>
        map user_id (db_users (snd (signup data db env))) = map user_id (db_users db))"
proof -
  have sel: "scalar_one_or_none (filter (\<lambda>r. user_email r = sr_email data) (db_users db))
               = Inr (Some u)"
    using assms(3,1,2) by (rule select_user_by_email)
  have ids: "map (user_id \<circ> (\<lambda>r. if user_id r = user_id u then u' else r)) (db_users db)
               = map user_id (db_users db)" if "user_id u' = user_id u" for u'
    using that by (simp cong: map_cong)
  show ?thesis
    by (simp add: signup_def sel Let_def flush_user_def send_otp_email_def ids)
qed

text \<open>Signups with the email of Alice (verified) and of Bob (not verified).\<close>

theorem signup_existing_email_outcome_witness:
  "signup signup_as_alice example_db example_env
     = (Inl (HTTPException 400 ''Email already registered''), example_db) \<and>
   fst (signup signup_as_bob example_db example_env)
     = Inl (AttributeError ''EmailService'' ''send_otp_email'') \<and>
   db_tenants (snd (signup signup_as_bob example_db example_env)) = db_tenants example_db \<and>
   map user_id (db_users (snd (signup signup_as_bob example_db example_env)))
     = [''u-alice'', ''u-bob'', ''u-carol'', ''u-admin'']"
proof -
  have a: "alice \<in> set (db_users example_db)" "user_email alice = sr_email signup_as_alice"
    and b: "bob \<in> set (db_users example_db)" "user_email bob = sr_email signup_as_bob"
    by (simp_all add: example_users signup_as_alice_def signup_as_bob_def)
  from signup_existing_email_outcome [OF a example_users(2), of example_env]
  have first: "signup signup_as_alice example_db example_env
     = (Inl (HTTPException 400 ''Email already registered''), example_db)"
    by (simp add: example_users)
  from signup_existing_email_outcome [OF b example_users(2), of example_env] example_users(12)
  have second:
    "fst (signup signup_as_bob example_db example_env)
       = Inl (AttributeError ''EmailService'' ''send_otp_email'')"
    "db_tenants (snd (signup signup_as_bob example_db example_env)) = db_tenants example_db"
    "map user_id (db_users (snd (signup signup_as_bob example_db example_env)))
       = map user_id (db_users example_db)"
    by simp_all
  from first second show ?thesis by (simp add: example_users)
qed

text \<open>
  C10. Any two calls of \<open>forgot_password\<close> (emails being unique in each table) return
  the same response, the message "If your email is registered, you will receive a
  password reset link", whether or not the email belongs to a user with a password; for
  an email that no user has, the call raises nothing and leaves the database as it was.
\<close>

theorem forgot_password_uniform:
  "(distinct (map user_email (db_users db1)) \<and> distinct (map user_email (db_users db2)) \<longrightarrow>
      fst (forgot_password data1 db1 env1) = fst (forgot_password data2 db2 env2) \<and>
      fst (forgot_password data1 db1 env1)
        = Inr [(''message'',
                ''If your email is registered, you will receive a password reset link'')]) \<and>
   (prr_email data1 \<notin> user_email ` set (db_users db1) \<longrightarrow>
      forgot_password data1 db1 env1
        = (Inr [(''message'',
                 ''If your email is registered, you will receive a password reset link'')], db1))"
proof -
  have registered: "fst (forgot_password data db env)
      = Inr [(''message'', ''If your email is registered, you will receive a password reset link'')]"
    if "distinct (map user_email (db_users db))" for data db env
  proof (cases "prr_email data \<in> user_email ` set (db_users db)")
    case True
    then obtain u where "u \<in> set (db_users db)" "user_email u = prr_email data" by auto
    with that have "scalar_one_or_none (filter (\<lambda>r. user_email r = prr_email data) (db_users db))
        = Inr (Some u)"
      by (simp add: select_user_by_email)
    then show ?thesis by (simp add: forgot_password_def Let_def)
  next
    case False
    then have "filter (\<lambda>r. user_email r = prr_email data) (db_users db) = []"
      by (force simp: filter_empty_conv)
    then show ?thesis by (simp add: forgot_password_def Let_def)
  qed
  have unknown: "forgot_password data1 db1 env1
        = (Inr [(''message'',
                 ''If your email is registered, you will receive a password reset link'')], db1)"
    if "prr_email data1 \<notin> user_email ` set (db_users db1)"
  proof -
    from that have "filter (\<lambda>r. user_email r = prr_email data1) (db_users db1) = []"
      by (force simp: filter_empty_conv)
    then show ?thesis by (simp add: forgot_password_def Let_def)
  qed
  from registered [of db1 data1 env1] registered [of db2 data2 env2] unknown
  show ?thesis by simp
qed

text \<open>A reset for Alice, who has a password, and one for an address nobody registered.\<close>

theorem forgot_password_uniform_witness:
  "fst (forgot_password reset_alice example_db example_env)
     = fst (forgot_password reset_nobody example_db example_env) \<and>
   fst (forgot_password reset_alice example_db example_env)
     = Inr [(''message'',
             ''If your email is registered, you will receive a password reset link'')] \<and>
   forgot_password reset_nobody example_db example_env
     = (Inr [(''message'',
              ''If your email is registered, you will receive a password reset link'')],
        example_db)"
  using forgot_password_uniform [of example_db example_db reset_alice example_env
          reset_nobody example_env]
    forgot_password_uniform [of example_db example_db reset_nobody example_env
          reset_alice example_env]
  by (simp add: example_users reset_nobody_def)

end
